theory Spec2Isabelle
  imports Main "HOL-Library.Word" "HOL-Library.Sublist" "HOL-Library.AList"
    "HOL-Library.Char_ord"
begin

section \<open>Data model\<close>

text \<open>
  Lucy is a forward HTTP proxy written in Go. The repository holds the proxy twice: the
  package \<open>internal/proxy\<close> (used by \<open>cmd/lucy\<close>) and the earlier single-file
  \<open>package main\<close>. Functions that are the same in both are modelled once; where the
  two differ (\<open>handleHTTP\<close>, \<open>handleHTTPS\<close>) each is modelled under the prefix of its
  package.

  A \<open>[]byte\<close> is a list of 8-bit words, a Go \<open>string\<close> is a \<open>string\<close>
  (a list of 8-bit characters), a Go \<open>error\<close> is a value carrying its message.
\<close>

type_synonym byte = "8 word"

datatype error = Error string

fun Error_text :: "error \<Rightarrow> string" where
  "Error_text (Error s) = s"

definition bytes_of :: "string \<Rightarrow> byte list" where
  "bytes_of s = map (\<lambda>c. of_nat (of_char c)) s"

subsection \<open>Byte sources\<close>

text \<open>
  An \<open>io.Reader\<close> is modelled by what reading it to the end delivers: the bytes it
  yields and the error it ends with (\<open>None\<close> when it ends with \<open>io.EOF\<close>). The
  \<open>io.Reader\<close> contract lets a source report its error either in the \<open>Read\<close> call
  that delivers its last bytes or in a \<open>Read\<close> call of its own after them;
  \<open>eager\<close> says that it is the former.
\<close>

record Reader =
  content :: "byte list"
  failure :: "error option"
  eager :: bool

text \<open>
  \<open>io.LimitReader(r, n)\<close>: \<open>LimitedReader.Read\<close> reports \<open>io.EOF\<close> once \<open>n\<close>
  bytes are handed out (at once when \<open>n \<le> 0\<close>) and does not read \<open>r\<close> again;
  before that it cuts the buffer to the bytes still allowed and returns what \<open>r.Read\<close>
  returns, bytes and error alike. So a source longer than \<open>n\<close> is cut with no error,
  a source shorter than \<open>n\<close> is passed through, and a source of exactly \<open>n\<close> bytes
  keeps its error only when it reports it together with its last bytes. \<open>n\<close> is an
  \<open>int64\<close>; no arithmetic is done on it here.
\<close>

definition io_LimitReader :: "Reader \<Rightarrow> int \<Rightarrow> Reader" where
  "io_LimitReader r n =
     (if n \<le> 0 then \<lparr>content = [], failure = None, eager = False\<rparr>
      else if n < int (length (content r))
        then \<lparr>content = take (nat n) (content r), failure = None, eager = False\<rparr>
      else if n = int (length (content r))
        then r\<lparr>failure := (if eager r then failure r else None)\<rparr>
      else r)"

text \<open>\<open>io.ReadAll\<close> reads until \<open>io.EOF\<close> or an error; \<open>io.EOF\<close> is not reported.\<close>

definition io_ReadAll :: "Reader \<Rightarrow> byte list \<times> error option" where
  "io_ReadAll r = (content r, failure r)"

definition readLimitedBody :: "Reader \<Rightarrow> int \<Rightarrow> byte list \<times> error option" where
  "readLimitedBody reader maxSize = io_ReadAll (io_LimitReader reader maxSize)"

subsection \<open>Header multimaps\<close>

text \<open>
  An \<open>http.Header\<close> is a Go map from header names to the ordered list of their values.
  It is modelled by the list of its entries in the order a \<open>range\<close> loop visits them
  (Go leaves that order open), with one entry per name. \<open>h[name]\<close> is \<open>map_of h name\<close>
  and the assignment \<open>h[name] = values\<close> is \<open>AList.update name values h\<close>.
\<close>

type_synonym Header = "(string \<times> string list) list"

text \<open>
  \<open>Header.Get(key)\<close> returns the first value stored under the canonical form of
  \<open>key\<close>, or the empty string. Every key this program passes is already canonical.
\<close>

definition Header_Get :: "Header \<Rightarrow> string \<Rightarrow> string" where
  "Header_Get h key =
     (case map_of h key of None \<Rightarrow> [] | Some [] \<Rightarrow> [] | Some (v # _) \<Rightarrow> v)"

definition Header_Values :: "Header \<Rightarrow> string \<Rightarrow> string list" where
  "Header_Values h key = (case map_of h key of None \<Rightarrow> [] | Some vs \<Rightarrow> vs)"

text \<open>
  \<open>strings.EqualFold\<close> on ASCII strings: its byte loop accepts two bytes when they are
  equal or when the smaller is an upper-case letter and the larger is that letter in
  lower case, and at the end requires both strings to be used up. The header names that
  \<open>net/http\<close> hands to a handler are field-name tokens, hence ASCII, and so are the
  names of the hop-by-hop list; the Unicode branch of \<open>EqualFold\<close> (taken at a byte
  \<open>\<ge> 0x80\<close>) is outside this model.
\<close>

definition isASCII :: "string \<Rightarrow> bool" where
  "isASCII s = list_all (\<lambda>c. (of_char c :: nat) < 128) s"

definition foldedPair :: "char \<Rightarrow> char \<Rightarrow> bool" where
  "foldedPair sr tr =
     (let lo = min (of_char sr) (of_char tr) :: nat;
          hi = max (of_char sr) (of_char tr) :: nat
      in 65 \<le> lo \<and> lo \<le> 90 \<and> hi = lo + 32)"

fun strings_EqualFold :: "string \<Rightarrow> string \<Rightarrow> bool" where
  "strings_EqualFold [] [] = True"
| "strings_EqualFold (sr # s) (tr # t) =
     ((tr = sr \<or> foldedPair sr tr) \<and> strings_EqualFold s t)"
| "strings_EqualFold _ _ = False"

definition hopByHop :: "string list" where
  "hopByHop = [''Connection'', ''Keep-Alive'', ''Proxy-Authenticate'',
     ''Proxy-Authorization'', ''Te'', ''Trailers'', ''Transfer-Encoding'', ''Upgrade'']"

definition isHopByHopHeader :: "string \<Rightarrow> bool" where
  "isHopByHopHeader name = list_ex (\<lambda>h. strings_EqualFold name h) hopByHop"

text \<open>
  The loop of \<open>createForwardedRequest\<close> (and of \<open>handleHTTP\<close> in \<open>internal/proxy\<close>):
  \<^verbatim>\<open>for name, values := range original.Header {
      if !isHopByHopHeader(name) { req.Header[name] = values } }\<close>
  The second argument is \<open>req.Header\<close> as built so far.
\<close>

fun copyForwardHeaders :: "Header \<Rightarrow> Header \<Rightarrow> Header" where
  "copyForwardHeaders [] out = out"
| "copyForwardHeaders ((name, values) # rest) out =
     copyForwardHeaders rest
       (if \<not> isHopByHopHeader name then AList.update name values out else out)"

text \<open>
  The loop of \<open>forwardResponse\<close>:
  \<^verbatim>\<open>for name, values := range resp.Header { w.Header()[name] = values }\<close>
\<close>

fun copyAllHeaders :: "Header \<Rightarrow> Header \<Rightarrow> Header" where
  "copyAllHeaders [] out = out"
| "copyAllHeaders ((name, values) # rest) out =
     copyAllHeaders rest (AList.update name values out)"

text \<open>
  \<open>extractInterestingHeaders\<close>: the display allow-list, each present name mapped to its
  values joined by a comma and a space.
\<close>

fun strings_Join :: "string list \<Rightarrow> string \<Rightarrow> string" where
  "strings_Join [] sep = []"
| "strings_Join [v] sep = v"
| "strings_Join (v # vs) sep = v @ sep @ strings_Join vs sep"

definition interestingNames :: "string list" where
  "interestingNames = [''Authorization'', ''Content-Type'', ''Content-Length'',
     ''User-Agent'', ''Accept'', ''Cookie'', ''Set-Cookie'']"

fun collectInteresting :: "Header \<Rightarrow> string list \<Rightarrow> (string \<times> string) list
    \<Rightarrow> (string \<times> string) list" where
  "collectInteresting headers [] interesting = interesting"
| "collectInteresting headers (name # names) interesting =
     collectInteresting headers names
       (if length (Header_Values headers name) > 0
        then AList.update name (strings_Join (Header_Values headers name) '', '') interesting
        else interesting)"

definition extractInterestingHeaders :: "Header \<Rightarrow> (string \<times> string) list" where
  "extractInterestingHeaders headers = collectInteresting headers interestingNames []"

subsection \<open>URLs\<close>

text \<open>
  \<open>url.URL\<close> with the fields \<open>URL.String\<close> reads. \<open>URL_Host\<close> is the field
  \<open>Host\<close> of the URL (the request has a \<open>Host\<close> of its own); \<open>User = None\<close> is the
  nil pointer.
\<close>

record Userinfo =
  username :: string
  password :: string
  passwordSet :: bool

record URL =
  Scheme :: string
  Opaque :: string
  User :: "Userinfo option"
  URL_Host :: string
  Path :: string
  RawPath :: string
  OmitHost :: bool
  ForceQuery :: bool
  RawQuery :: string
  Fragment :: string
  RawFragment :: string

datatype encoding = encodePath | encodePathSegment | encodeHost | encodeZone
  | encodeUserPassword | encodeQueryComponent | encodeFragment

text \<open>\<open>shouldEscape\<close> of \<open>net/url\<close>: which bytes are percent-escaped in which part.\<close>

definition shouldEscape :: "char \<Rightarrow> encoding \<Rightarrow> bool" where
  "shouldEscape c mode =
     (if (CHR ''a'' \<le> c \<and> c \<le> CHR ''z'') \<or> (CHR ''A'' \<le> c \<and> c \<le> CHR ''Z'')
         \<or> (CHR ''0'' \<le> c \<and> c \<le> CHR ''9'') then False
      else if (mode = encodeHost \<or> mode = encodeZone)
         \<and> List.member [CHR ''!'', CHR ''$'', CHR ''&'', CHR 0x27, CHR ''('', CHR '')'',
              CHR ''*'', CHR ''+'', CHR '','', CHR '';'', CHR ''='', CHR '':'', CHR ''['',
              CHR '']'', CHR ''<'', CHR ''>'', CHR 0x22] c then False
      else if List.member ''-_.~'' c then False
      else if List.member ''$&+,/:;=?@'' c \<and> mode = encodePath then c = CHR ''?''
      else if List.member ''$&+,/:;=?@'' c \<and> mode = encodePathSegment
        then List.member ''/;,?'' c
      else if List.member ''$&+,/:;=?@'' c \<and> mode = encodeUserPassword
        then List.member ''@/?:'' c
      else if List.member ''$&+,/:;=?@'' c \<and> mode = encodeQueryComponent then True
      else if List.member ''$&+,/:;=?@'' c \<and> mode = encodeFragment then False
      else if mode = encodeFragment \<and> List.member ''!()*'' c then False
      else True)"

definition upperhex :: string where
  "upperhex = ''0123456789ABCDEF''"

fun escape :: "string \<Rightarrow> encoding \<Rightarrow> string" where
  "escape [] mode = []"
| "escape (c # s) mode =
     (if shouldEscape c mode
      then (if c = CHR '' '' \<and> mode = encodeQueryComponent then [CHR ''+'']
            else [CHR ''%'', upperhex ! (of_char c div 16), upperhex ! (of_char c mod 16)])
      else [c]) @ escape s mode"

definition ishex :: "char \<Rightarrow> bool" where
  "ishex c = ((CHR ''0'' \<le> c \<and> c \<le> CHR ''9'') \<or> (CHR ''a'' \<le> c \<and> c \<le> CHR ''f'')
     \<or> (CHR ''A'' \<le> c \<and> c \<le> CHR ''F''))"

definition unhex :: "char \<Rightarrow> nat" where
  "unhex c =
     (if CHR ''0'' \<le> c \<and> c \<le> CHR ''9'' then of_char c - 48
      else if CHR ''a'' \<le> c \<and> c \<le> CHR ''f'' then of_char c - 97 + 10
      else if CHR ''A'' \<le> c \<and> c \<le> CHR ''F'' then of_char c - 65 + 10
      else 0)"

text \<open>
  \<open>unescape\<close> in the modes \<open>encodePath\<close> and \<open>encodeFragment\<close> (the two \<open>String\<close>
  uses): a \<open>%\<close> must be followed by two hex digits, which it decodes; \<open>+\<close> stays.
  \<open>None\<close> is the \<open>EscapeError\<close>.
\<close>

fun unescape :: "string \<Rightarrow> string option" where
  "unescape [] = Some []"
| "unescape (c # s) =
     (if c = CHR ''%''
      then (case s of
              a # b # rest \<Rightarrow>
                if ishex a \<and> ishex b
                then map_option ((#) (char_of (unhex a * 16 + unhex b))) (unescape rest)
                else None
            | _ \<Rightarrow> None)
      else map_option ((#) c) (unescape s))"

definition validEncoded :: "string \<Rightarrow> encoding \<Rightarrow> bool" where
  "validEncoded s mode =
     list_all (\<lambda>c. List.member [CHR ''!'', CHR ''$'', CHR ''&'', CHR 0x27, CHR ''('',
         CHR '')'', CHR ''*'', CHR ''+'', CHR '','', CHR '';'', CHR ''='', CHR '':'',
         CHR ''@'', CHR ''['', CHR '']'', CHR ''%''] c \<or> \<not> shouldEscape c mode) s"

definition EscapedPath :: "URL \<Rightarrow> string" where
  "EscapedPath u =
     (if RawPath u \<noteq> [] \<and> validEncoded (RawPath u) encodePath
         \<and> unescape (RawPath u) = Some (Path u) then RawPath u
      else if Path u = ''*'' then ''*''
      else escape (Path u) encodePath)"

definition EscapedFragment :: "URL \<Rightarrow> string" where
  "EscapedFragment u =
     (if RawFragment u \<noteq> [] \<and> validEncoded (RawFragment u) encodeFragment
         \<and> unescape (RawFragment u) = Some (Fragment u) then RawFragment u
      else escape (Fragment u) encodeFragment)"

definition Userinfo_String :: "Userinfo \<Rightarrow> string" where
  "Userinfo_String ui =
     escape (username ui) encodeUserPassword
     @ (if passwordSet ui then '':'' @ escape (password ui) encodeUserPassword else [])"

text \<open>
  \<open>URL.String\<close>: the scheme and a colon; then either the opaque part, or the authority
  (two slashes, user information, escaped host), a slash before a relative path that
  follows a host, \<open>./\<close> before a first segment with a colon when nothing is written yet,
  and the escaped path; then the query and the fragment.
\<close>

definition URL_authority :: "URL \<Rightarrow> string" where
  "URL_authority u =
     (if Scheme u \<noteq> [] \<or> URL_Host u \<noteq> [] \<or> User u \<noteq> None
      then (if OmitHost u \<and> URL_Host u = [] \<and> User u = None then []
            else (if URL_Host u \<noteq> [] \<or> Path u \<noteq> [] \<or> User u \<noteq> None then ''//'' else [])
              @ (case User u of None \<Rightarrow> [] | Some ui \<Rightarrow> Userinfo_String ui @ ''@'')
              @ (if URL_Host u \<noteq> [] then escape (URL_Host u) encodeHost else []))
      else [])"

definition URL_String :: "URL \<Rightarrow> string" where
  "URL_String u =
     (let buf = (if Scheme u \<noteq> [] then Scheme u @ '':'' else []);
          buf = (if Opaque u \<noteq> [] then buf @ Opaque u
                 else let buf = buf @ URL_authority u;
                          path = EscapedPath u;
                          buf = (if path \<noteq> [] \<and> hd path \<noteq> CHR ''/'' \<and> URL_Host u \<noteq> []
                                 then buf @ ''/'' else buf);
                          buf = (if buf = []
                                    \<and> List.member (takeWhile (\<lambda>c. c \<noteq> CHR ''/'') path) CHR '':''
                                 then buf @ ''./'' else buf)
                      in buf @ path);
          buf = (if ForceQuery u \<or> RawQuery u \<noteq> [] then buf @ ''?'' @ RawQuery u else buf);
          buf = (if Fragment u \<noteq> [] then buf @ ''#'' @ EscapedFragment u else buf)
      in buf)"

definition IsAbs :: "URL \<Rightarrow> bool" where
  "IsAbs u = (Scheme u \<noteq> [])"

subsection \<open>Requests and responses\<close>

text \<open>
  The inbound \<open>http.Request\<close> as a handler sees it. \<open>TLS\<close> is \<open>r.TLS != nil\<close>.
\<close>

record Request =
  Method :: string
  URL :: URL
  Host :: string
  Header :: Header
  Body :: Reader
  TLS :: bool

text \<open>\<open>buildTargetURL\<close>, the same in both packages (in \<open>main\<close> with a nil error).\<close>

definition buildTargetURL :: "Request \<Rightarrow> string" where
  "buildTargetURL r =
     (if IsAbs (URL r) then URL_String (URL r)
      else let scheme = (if TLS r then ''https'' else ''http'')
           in URL_String \<lparr>Scheme = scheme, Opaque = [], User = None, URL_Host = Host r,
                Path = Path (URL r), RawPath = [], OmitHost = False, ForceQuery = False,
                RawQuery = RawQuery (URL r), Fragment = [], RawFragment = []\<rparr>)"

record Response =
  Status :: string
  StatusCode :: int
  Response_Header :: Header
  Response_Body :: Reader

text \<open>
  The outbound request that \<open>http.NewRequestWithContext(ctx, method, url, body)\<close>
  returns: the method, the target as given, an empty header map and the body bytes.
\<close>

record OutRequest =
  out_Method :: string
  out_URL :: string
  out_Header :: Header
  out_Body :: "byte list"

record Config =
  Port :: int
  RequestTimeout :: int
  ServerTimeout :: int
  MaxBodySize :: int

subsection \<open>The response writer\<close>

text \<open>
  An \<open>http.ResponseWriter\<close>: the header map \<open>w.Header()\<close>, the status code sent
  (\<open>None\<close> until the header is written; a second \<open>WriteHeader\<close> is ignored), the body
  bytes handed to \<open>Write\<close>, and whether \<open>w\<close> implements \<open>http.Hijacker\<close> and what
  \<open>Hijack\<close> then returns.
\<close>

datatype hijack_support = NotHijacker | HijackFails error | HijackSucceeds

record ResponseWriter =
  wHeader :: Header
  wStatus :: "int option"
  wBody :: "byte list"
  hijacker :: hijack_support

definition WriteHeader :: "ResponseWriter \<Rightarrow> int \<Rightarrow> ResponseWriter" where
  "WriteHeader w code = (case wStatus w of None \<Rightarrow> w\<lparr>wStatus := Some code\<rparr> | Some _ \<Rightarrow> w)"

definition Write :: "ResponseWriter \<Rightarrow> byte list \<Rightarrow> ResponseWriter" where
  "Write w bs = (let w = (if wStatus w = None then WriteHeader w 200 else w)
                 in w\<lparr>wBody := wBody w @ bs\<rparr>)"

text \<open>
  \<open>http.Error(w, msg, code)\<close>: drops \<open>Content-Length\<close>, sets the plain-text content
  type and \<open>nosniff\<close>, writes the header with \<open>code\<close> and prints \<open>msg\<close> and a newline.
\<close>

definition http_Error :: "ResponseWriter \<Rightarrow> string \<Rightarrow> int \<Rightarrow> ResponseWriter" where
  "http_Error w msg code =
     (let h = AList.delete ''Content-Length'' (wHeader w);
          h = AList.update ''Content-Type'' [''text/plain; charset=utf-8''] h;
          h = AList.update ''X-Content-Type-Options'' [''nosniff''] h;
          w = WriteHeader (w\<lparr>wHeader := h\<rparr>) code
      in Write w (bytes_of (msg @ [CHR 0x0A])))"

definition StatusOK :: int where "StatusOK = 200"
definition StatusRequestEntityTooLarge :: int where "StatusRequestEntityTooLarge = 413"
definition StatusInternalServerError :: int where "StatusInternalServerError = 500"
definition StatusBadGateway :: int where "StatusBadGateway = 502"

subsection \<open>The content inspector\<close>

text \<open>
  The \<open>compress/gzip\<close> library is a parameter: what \<open>gzip.NewReader\<close> followed by
  \<open>io.ReadAll\<close> does on given bytes. Either \<open>NewReader\<close> fails, or \<open>ReadAll\<close> fails
  (returning the bytes decoded so far and the error), or \<open>ReadAll\<close> returns the decoded
  bytes.
\<close>

datatype gzip_outcome = NewReaderFails error | ReadAllFails "byte list" error
  | ReadAllReturns "byte list"

definition decompressIfNeeded ::
    "(byte list \<Rightarrow> gzip_outcome) \<Rightarrow> byte list \<Rightarrow> Header \<Rightarrow> byte list" where
  "decompressIfNeeded gzip body headers =
     (if Header_Get headers ''Content-Encoding'' = ''gzip''
      then (case gzip body of
              NewReaderFails err \<Rightarrow> body
            | ReadAllFails dat err \<Rightarrow> body
            | ReadAllReturns dat \<Rightarrow> dat)
      else body)"

text \<open>
  The \<open>float64\<close> values of \<open>isBinaryContent\<close> are non-negative: a pair \<open>(m, k)\<close> stands
  for \<open>m / 2 ^ k\<close>. \<open>float64(n)\<close> is exact for \<open>n < 2 ^ 53\<close>. The quotient of two such
  integers \<open>0 < n \<le> d\<close> is the IEEE-754 division, rounded to nearest with ties to even:
  scale \<open>n\<close> by the least \<open>2 ^ k\<close> that brings \<open>n * 2 ^ k / d\<close> to \<open>2 ^ 52\<close> or above
  (a 53-bit significand), divide, and round on the remainder. The constant \<open>0.2\<close> of the
  source is the \<open>float64\<close> nearest to \<open>1/5\<close>.
\<close>

type_synonym float64 = "nat \<times> nat"

function normalise_shift :: "nat \<Rightarrow> nat \<Rightarrow> nat \<Rightarrow> nat" where
  "normalise_shift n d k =
     (if n = 0 \<or> 2 ^ 52 * d \<le> n * 2 ^ k then k else normalise_shift n d (Suc k))"
  by pat_completeness auto
termination
proof (relation "measure (\<lambda>(n, d, k). 2 ^ 52 * d - n * 2 ^ k)")
  show "wf (measure (\<lambda>(n, d, k). 2 ^ 52 * d - n * 2 ^ k))" by simp
next
  fix n d k :: nat
  assume "\<not> (n = 0 \<or> 2 ^ 52 * d \<le> n * 2 ^ k)"
  then have "0 < n * 2 ^ k" and "n * 2 ^ k < 2 ^ 52 * d" by simp_all
  moreover have "n * 2 ^ Suc k = n * 2 ^ k + n * 2 ^ k" by simp
  ultimately have "2 ^ 52 * d - n * 2 ^ Suc k < 2 ^ 52 * d - n * 2 ^ k" by linarith
  then show "((n, d, Suc k), (n, d, k)) \<in> measure (\<lambda>(n, d, k). 2 ^ 52 * d - n * 2 ^ k)"
    by simp
qed

declare normalise_shift.simps [simp del]

definition float64_quotient :: "nat \<Rightarrow> nat \<Rightarrow> float64" where
  "float64_quotient n d =
     (if n = 0 then (0, 0)
      else let k = normalise_shift n d 0;
               q = (n * 2 ^ k) div d;
               r = (n * 2 ^ k) mod d
           in (if d < 2 * r \<or> (2 * r = d \<and> odd q) then q + 1 else q, k))"

definition float64_greater :: "float64 \<Rightarrow> float64 \<Rightarrow> bool" where
  "float64_greater x y = (fst y * 2 ^ snd x < fst x * 2 ^ snd y)"

definition float64_0_2 :: float64 where
  "float64_0_2 = float64_quotient 1 5"

text \<open>\<open>isBinaryContent\<close> of \<open>package main\<close>: the counting loop and the ratio test.\<close>

definition nonPrintableByte :: "byte \<Rightarrow> bool" where
  "nonPrintableByte b = (b = 0 \<or> (b < 32 \<and> b \<noteq> 9 \<and> b \<noteq> 10 \<and> b \<noteq> 13) \<or> b > 126)"

fun countNonPrintable :: "byte list \<Rightarrow> nat \<Rightarrow> nat" where
  "countNonPrintable [] nonPrintable = nonPrintable"
| "countNonPrintable (b # bs) nonPrintable =
     countNonPrintable bs (if nonPrintableByte b then nonPrintable + 1 else nonPrintable)"

definition isBinaryContent :: "byte list \<Rightarrow> bool" where
  "isBinaryContent dat =
     (if length dat = 0 then False
      else let nonPrintable = countNonPrintable dat 0
           in float64_greater (float64_quotient nonPrintable (length dat)) float64_0_2)"

subsection \<open>The surroundings of a handler\<close>

text \<open>
  What a handler calls and does not define: the error of
  \<open>http.NewRequestWithContext\<close> for a method and a target (\<open>None\<close> when the request
  is built), the outcome of \<open>p.client.Do\<close> on the outbound request, the gzip library,
  the outcome of \<open>net.DialTimeout\<close> on a host (\<open>None\<close> when the connection is made),
  \<open>strings.TrimSpace\<close>, and the re-indented form of a JSON text (\<open>json.Unmarshal\<close>
  followed by \<open>json.MarshalIndent\<close>; \<open>None\<close> when either fails).
\<close>

record world =
  NewRequest_error :: "string \<Rightarrow> string \<Rightarrow> error option"
  client_Do :: "OutRequest \<Rightarrow> error + Response"
  gzip_decode :: "byte list \<Rightarrow> gzip_outcome"
  net_DialTimeout :: "string \<Rightarrow> error option"
  strings_TrimSpace :: "string \<Rightarrow> string"
  json_indented :: "string \<Rightarrow> string option"

text \<open>The display helpers of \<open>package main\<close>.\<close>

definition isJSON :: "world \<Rightarrow> string \<Rightarrow> bool" where
  "isJSON env s =
     (let s = strings_TrimSpace env s
      in (s \<noteq> [] \<and> hd s = CHR ''{'' \<and> last s = CHR ''}'')
         \<or> (s \<noteq> [] \<and> hd s = CHR ''['' \<and> last s = CHR '']''))"

definition prettyJSON :: "world \<Rightarrow> string \<Rightarrow> string" where
  "prettyJSON env s = (case json_indented env s of None \<Rightarrow> s | Some pretty \<Rightarrow> pretty)"

definition formatBody :: "world \<Rightarrow> string \<Rightarrow> string" where
  "formatBody env body =
     (if isJSON env body \<and> prettyJSON env body \<noteq> body
      then (if length (prettyJSON env body) > 500
            then take 500 (prettyJSON env body) @ ''...''
            else prettyJSON env body)
      else if length body > 500 then take 500 body @ ''...''
      else body)"

definition string_of :: "byte list \<Rightarrow> string" where
  "string_of bs = map (\<lambda>b. char_of (unat b)) bs"

text \<open>
  The observability records. \<open>PrettyLogRequest\<close> and \<open>PrettyLogResponse\<close> are the
  calls of \<open>internal/proxy\<close> with their arguments (the time apart);
  \<open>ShownRequest\<close> and \<open>ShownResponse\<close> are what \<open>logHTTPRequest\<close> and
  \<open>logHTTPResponse\<close> of \<open>package main\<close> print; \<open>ErrorLine\<close> is the printed
  error line (\<open>p.logError\<close> of \<open>package main\<close>, the \<open>ERROR\<close> line of
  \<open>internal/proxy\<close>) and \<open>LoggerError\<close> a call of \<open>p.logger.Error\<close>. The
  \<open>p.logger.Info\<close> lines, which repeat the printed fields with the body size in place
  of the body, and all times and durations are left out.
\<close>

datatype shown_body = NoBody | BinaryPlaceholder nat | BodyText string

datatype log_record =
    PrettyLogRequest string string "(string \<times> string) list" string
  | PrettyLogResponse int string "(string \<times> string) list" string
  | ShownRequest string string "(string \<times> string) list" shown_body
  | ShownResponse string string "(string \<times> string) list" shown_body
  | ErrorLine string error
  | LoggerError string error

text \<open>
  One HTTP cycle: the response writer at the end, the outbound requests handed to
  \<open>p.client.Do\<close>, the records emitted, and whether the handler panicked (a nil
  dereference, which \<open>net/http\<close> recovers by dropping the connection).
\<close>

record Cycle =
  writer :: ResponseWriter
  dispatched :: "OutRequest list"
  records :: "log_record list"
  panicked :: bool

definition NewRequestWithContext ::
    "world \<Rightarrow> string \<Rightarrow> string \<Rightarrow> byte list \<Rightarrow> error + OutRequest" where
  "NewRequestWithContext env method url body =
     (case NewRequest_error env method url of
        Some err \<Rightarrow> Inl err
      | None \<Rightarrow> Inr \<lparr>out_Method = (if method = [] then ''GET'' else method), out_URL = url,
                  out_Header = [], out_Body = body\<rparr>)"

subsection \<open>\<open>handleHTTP\<close> of \<open>internal/proxy\<close>\<close>

text \<open>
  The errors of both body reads and of \<open>NewRequestWithContext\<close> are dropped (\<open>_\<close>).
  When the request could not be built \<open>req\<close> is nil, and the header loop or
  \<open>p.client.Do(req)\<close> dereferences it.
\<close>

definition proxy_handleHTTP :: "world \<Rightarrow> Config \<Rightarrow> ResponseWriter \<Rightarrow> Request \<Rightarrow> Cycle" where
  "proxy_handleHTTP env cfg w r =
     (let body = fst (io_ReadAll (io_LimitReader (Body r) (MaxBodySize cfg)));
          headers = extractInterestingHeaders (Header r);
          log1 = PrettyLogRequest (Method r) (URL_String (URL r)) headers (string_of body);
          targetURL = buildTargetURL r
      in case NewRequestWithContext env (Method r) targetURL body of
           Inl _ \<Rightarrow> \<lparr>writer = w, dispatched = [], records = [log1], panicked = True\<rparr>
         | Inr req0 \<Rightarrow>
             let req = req0\<lparr>out_Header := copyForwardHeaders (Header r) (out_Header req0)\<rparr>
             in case client_Do env req of
                  Inl err \<Rightarrow>
                    \<lparr>writer = http_Error w (''Failed to make request: '' @ Error_text err)
                        StatusBadGateway,
                     dispatched = [req], records = [log1, ErrorLine targetURL err],
                     panicked = False\<rparr>
                | Inr resp \<Rightarrow>
                    let respBody = fst (io_ReadAll
                          (io_LimitReader (Response_Body resp) (MaxBodySize cfg)));
                        decompressed =
                          decompressIfNeeded (gzip_decode env) respBody (Response_Header resp);
                        respHeaders = extractInterestingHeaders (Response_Header resp);
                        log2 = PrettyLogResponse (StatusCode resp) targetURL respHeaders
                          (string_of decompressed);
                        w = w\<lparr>wHeader := copyAllHeaders (Response_Header resp) (wHeader w)\<rparr>;
                        w = WriteHeader w (StatusCode resp);
                        w = Write w respBody
                    in \<lparr>writer = w, dispatched = [req], records = [log1, log2],
                        panicked = False\<rparr>)"

subsection \<open>\<open>handleHTTP\<close> of \<open>package main\<close> and its helpers\<close>

definition main_buildTargetURL :: "Request \<Rightarrow> error + string" where
  "main_buildTargetURL r = Inr (buildTargetURL r)"

definition createForwardedRequest ::
    "world \<Rightarrow> Request \<Rightarrow> string \<Rightarrow> byte list \<Rightarrow> error + OutRequest" where
  "createForwardedRequest env original targetURL body =
     (case NewRequestWithContext env (Method original) targetURL body of
        Inl err \<Rightarrow> Inl err
      | Inr req \<Rightarrow>
          Inr (req\<lparr>out_Header := copyForwardHeaders (Header original) (out_Header req)\<rparr>))"

definition forwardResponse :: "ResponseWriter \<Rightarrow> Response \<Rightarrow> byte list \<Rightarrow> ResponseWriter" where
  "forwardResponse w resp body =
     (let w = w\<lparr>wHeader := copyAllHeaders (Response_Header resp) (wHeader w)\<rparr>;
          w = WriteHeader w (StatusCode resp)
      in Write w body)"

definition logHTTPRequest :: "world \<Rightarrow> Request \<Rightarrow> byte list \<Rightarrow> log_record" where
  "logHTTPRequest env r body =
     ShownRequest (Method r) (URL_String (URL r)) (extractInterestingHeaders (Header r))
       (if length body > 0 then BodyText (formatBody env (string_of body)) else NoBody)"

definition logHTTPResponse :: "world \<Rightarrow> string \<Rightarrow> Response \<Rightarrow> byte list \<Rightarrow> log_record" where
  "logHTTPResponse env url resp body =
     ShownResponse (Status resp) url (extractInterestingHeaders (Response_Header resp))
       (if length body > 0
        then (if isBinaryContent body then BinaryPlaceholder (length body)
              else BodyText (formatBody env (string_of body)))
        else NoBody)"

definition main_handleHTTP :: "world \<Rightarrow> Config \<Rightarrow> ResponseWriter \<Rightarrow> Request \<Rightarrow> Cycle" where
  "main_handleHTTP env cfg w r =
     (case readLimitedBody (Body r) (MaxBodySize cfg) of
        (_, Some err) \<Rightarrow>
          \<lparr>writer = http_Error w ''Request body too large'' StatusRequestEntityTooLarge,
           dispatched = [], records = [LoggerError ''Failed to read request body'' err],
           panicked = False\<rparr>
      | (body, None) \<Rightarrow>
          let log1 = logHTTPRequest env r body
          in case main_buildTargetURL r of
               Inl err \<Rightarrow>
                 \<lparr>writer = http_Error w ''Invalid request URL'' 400, dispatched = [],
                  records = [log1, LoggerError ''Invalid target URL'' err], panicked = False\<rparr>
             | Inr targetURL \<Rightarrow>
                 (case createForwardedRequest env r targetURL body of
                    Inl err \<Rightarrow>
                      \<lparr>writer = http_Error w ''Failed to create request''
                          StatusInternalServerError,
                       dispatched = [],
                       records = [log1, LoggerError ''Failed to create forwarded request'' err],
                       panicked = False\<rparr>
                  | Inr req \<Rightarrow>
                      (case client_Do env req of
                         Inl err \<Rightarrow>
                           \<lparr>writer = http_Error w
                               (''Failed to make request: '' @ Error_text err) StatusBadGateway,
                            dispatched = [req], records = [log1, ErrorLine targetURL err],
                            panicked = False\<rparr>
                       | Inr resp \<Rightarrow>
                           (case readLimitedBody (Response_Body resp) (MaxBodySize cfg) of
                              (_, Some err) \<Rightarrow>
                                \<lparr>writer = http_Error w ''Response body too large''
                                    StatusBadGateway,
                                 dispatched = [req],
                                 records = [log1,
                                   LoggerError ''Failed to read response body'' err],
                                 panicked = False\<rparr>
                            | (respBody, None) \<Rightarrow>
                                let decompressedBody = decompressIfNeeded (gzip_decode env)
                                      respBody (Response_Header resp);
                                    log2 = logHTTPResponse env targetURL resp decompressedBody
                                in \<lparr>writer = forwardResponse w resp respBody,
                                    dispatched = [req], records = [log1, log2],
                                    panicked = False\<rparr>))))"

subsection \<open>\<open>handleHTTPS\<close>\<close>

text \<open>
  The steps of a CONNECT session that the outside sees, in order. The two relay
  goroutines of \<open>tunnelTraffic\<close> are one event; the deferred \<open>Close\<close> calls run when
  the handler returns, the last deferred first. The two packages differ in one call:
  on a failed dial \<open>internal/proxy\<close> calls \<open>p.logger.Error\<close> and \<open>package main\<close>
  calls \<open>p.logError\<close>, which prints the error line.
\<close>

datatype tunnel_event = DialTimeout string | Hijack | TunnelTraffic string
  | ClientConnClose | TargetConnClose

record Session =
  session_writer :: ResponseWriter
  events :: "tunnel_event list"
  session_records :: "log_record list"

definition proxy_handleHTTPS :: "world \<Rightarrow> ResponseWriter \<Rightarrow> Request \<Rightarrow> Session" where
  "proxy_handleHTTPS env w r =
     (case net_DialTimeout env (Host r) of
        Some err \<Rightarrow>
          \<lparr>session_writer = http_Error w ''Failed to connect to target'' StatusBadGateway,
           events = [DialTimeout (Host r)],
           session_records = [LoggerError (''CONNECT '' @ Host r) err]\<rparr>
      | None \<Rightarrow>
          let w = WriteHeader w StatusOK
          in case hijacker w of
               NotHijacker \<Rightarrow>
                 \<lparr>session_writer = http_Error w ''Hijacking not supported''
                     StatusInternalServerError,
                  events = [DialTimeout (Host r), TargetConnClose],
                  session_records = []\<rparr>
             | HijackFails err \<Rightarrow>
                 \<lparr>session_writer = w,
                  events = [DialTimeout (Host r), Hijack, TargetConnClose],
                  session_records = [LoggerError ''Failed to hijack connection'' err]\<rparr>
             | HijackSucceeds \<Rightarrow>
                 \<lparr>session_writer = w,
                  events = [DialTimeout (Host r), Hijack, TunnelTraffic (Host r),
                    ClientConnClose, TargetConnClose],
                  session_records = []\<rparr>)"

definition main_handleHTTPS :: "world \<Rightarrow> ResponseWriter \<Rightarrow> Request \<Rightarrow> Session" where
  "main_handleHTTPS env w r =
     (case net_DialTimeout env (Host r) of
        Some err \<Rightarrow>
          \<lparr>session_writer = http_Error w ''Failed to connect to target'' StatusBadGateway,
           events = [DialTimeout (Host r)],
           session_records = [ErrorLine (''CONNECT '' @ Host r) err]\<rparr>
      | None \<Rightarrow>
          let w = WriteHeader w StatusOK
          in case hijacker w of
               NotHijacker \<Rightarrow>
                 \<lparr>session_writer = http_Error w ''Hijacking not supported''
                     StatusInternalServerError,
                  events = [DialTimeout (Host r), TargetConnClose],
                  session_records = []\<rparr>
             | HijackFails err \<Rightarrow>
                 \<lparr>session_writer = w,
                  events = [DialTimeout (Host r), Hijack, TargetConnClose],
                  session_records = [LoggerError ''Failed to hijack connection'' err]\<rparr>
             | HijackSucceeds \<Rightarrow>
                 \<lparr>session_writer = w,
                  events = [DialTimeout (Host r), Hijack, TunnelTraffic (Host r),
                    ClientConnClose, TargetConnClose],
                  session_records = []\<rparr>)"

subsection \<open>The specification's vocabulary\<close>

text \<open>
  The hop-by-hop set as the specification lists it, and membership of a name in it
  under any letter case: the two names agree once their ASCII letters are lowered.
\<close>

definition toLowerASCII :: "char \<Rightarrow> char" where
  "toLowerASCII c =
     (if CHR ''A'' \<le> c \<and> c \<le> CHR ''Z'' then char_of (of_char c + 32 :: nat) else c)"

definition hopByHopSet :: "string list" where
  "hopByHopSet = [''Connection'', ''Keep-Alive'', ''Proxy-Authenticate'',
     ''Proxy-Authorization'', ''TE'', ''Trailers'', ''Transfer-Encoding'', ''Upgrade'']"

definition inHopByHopSet :: "string \<Rightarrow> bool" where
  "inHopByHopSet name =
     (map toLowerASCII name \<in> set (map (map toLowerASCII) hopByHopSet))"

text \<open>
  The bytes the binary classifier counts, in the specification's words: NUL, a control
  character other than tab, newline and carriage return, or a byte above 126.
\<close>

definition countedAsBinary :: "byte \<Rightarrow> bool" where
  "countedAsBinary b =
     (unat b = 0 \<or> (unat b < 32 \<and> unat b \<noteq> 9 \<and> unat b \<noteq> 10 \<and> unat b \<noteq> 13)
      \<or> 126 < unat b)"

text \<open>A string that \<open>escape\<close> leaves as it is in the given mode.\<close>

definition needsNoEscape :: "string \<Rightarrow> encoding \<Rightarrow> bool" where
  "needsNoEscape s mode = list_all (\<lambda>c. \<not> shouldEscape c mode) s"

text \<open>
  The outbound request both handlers build for a request \<open>r\<close> once its body is read:
  the method, the resolved target, the forwarded headers and the body.
\<close>

definition outbound :: "Request \<Rightarrow> byte list \<Rightarrow> OutRequest" where
  "outbound r body =
     \<lparr>out_Method = (if Method r = [] then ''GET'' else Method r), out_URL = buildTargetURL r,
      out_Header = copyForwardHeaders (Header r) [], out_Body = body\<rparr>"

subsection \<open>A sample cycle\<close>

text \<open>
  A request with a three-byte body and hop-by-hop headers, an origin that answers with a
  three-byte body declared as gzip, and a gzip library that decodes it to \<open>hi\<close>.
\<close>

definition sample_response :: Response where
  "sample_response =
     \<lparr>Status = ''200 OK'', StatusCode = 200,
      Response_Header = [(''Content-Encoding'', [''gzip'']), (''Content-Type'', [''text/plain''])],
      Response_Body = \<lparr>content = [31, 139, 8], failure = None, eager = False\<rparr>\<rparr>"

definition sample_world :: world where
  "sample_world =
     \<lparr>NewRequest_error = (\<lambda>m u. None), client_Do = (\<lambda>req. Inr sample_response),
      gzip_decode = (\<lambda>bs. ReadAllReturns [104, 105]), net_DialTimeout = (\<lambda>h. None),
      strings_TrimSpace = (\<lambda>s. s), json_indented = (\<lambda>s. None)\<rparr>"

definition sample_URL :: URL where
  "sample_URL =
     \<lparr>Scheme = [], Opaque = [], User = None, URL_Host = [], Path = ''/a b'', RawPath = [],
      OmitHost = False, ForceQuery = False, RawQuery = ''x=1'', Fragment = [],
      RawFragment = []\<rparr>"

definition sample_request :: Request where
  "sample_request =
     \<lparr>Method = ''POST'', URL = sample_URL, Host = ''example.com'',
      Header = [(''Connection'', [''keep-alive'']), (''Accept'', [''a'', ''b'']),
        (''TE'', [''trailers''])],
      Body = \<lparr>content = [1, 2, 3], failure = None, eager = False\<rparr>, TLS = False\<rparr>"

definition short_request :: Request where
  "short_request = sample_request\<lparr>Body := \<lparr>content = [7], failure = None, eager = False\<rparr>\<rparr>"

definition default_config :: Config where
  "default_config = \<lparr>Port = 8080, RequestTimeout = 30000000000,
     ServerTimeout = 30000000000, MaxBodySize = 10 * 1024 * 1024\<rparr>"

definition small_config :: Config where
  "small_config = default_config\<lparr>MaxBodySize := 2\<rparr>"

definition fresh_writer :: ResponseWriter where
  "fresh_writer = \<lparr>wHeader = [], wStatus = None, wBody = [], hijacker = NotHijacker\<rparr>"

definition absolute_request :: Request where
  "absolute_request =
     sample_request\<lparr>URL := sample_URL\<lparr>Scheme := ''http'', URL_Host := ''api.github.com'',
       Path := ''/zen'', RawQuery := []\<rparr>\<rparr>"

definition plain_request :: Request where
  "plain_request =
     sample_request\<lparr>URL := sample_URL\<lparr>Path := ''/zen'', RawQuery := []\<rparr>, TLS := True\<rparr>"

definition connect_request :: Request where
  "connect_request = sample_request\<lparr>Method := ''CONNECT'', Host := ''example.com:443''\<rparr>"


definition unreachable_world :: world where
  "unreachable_world = sample_world\<lparr>net_DialTimeout := \<lambda>h. Some (Error ''i/o timeout'')\<rparr>"

text \<open>
  A source of three bytes that ends with an error, reported together with the last
  bytes.
\<close>

definition broken_reader :: Reader where
  "broken_reader =
     \<lparr>content = [1, 2, 3], failure = Some (Error ''connection reset''), eager = True\<rparr>"

section \<open>Properties\<close>

subsection \<open>The exit paths of the two HTTP handlers\<close>

lemma NewRequest_Some:
  "NewRequest_error env m u = Some err \<Longrightarrow> NewRequestWithContext env m u b = Inl err"
  by (simp add: NewRequestWithContext_def)

lemma NewRequest_None:
  "NewRequest_error env m u = None \<Longrightarrow>
   NewRequestWithContext env m u b =
     Inr \<lparr>out_Method = (if m = [] then ''GET'' else m), out_URL = u, out_Header = [],
          out_Body = b\<rparr>"
  by (simp add: NewRequestWithContext_def)

lemma proxy_path_panic:
  assumes "NewRequest_error env (Method r) (buildTargetURL r) = Some err"
  shows "writer (proxy_handleHTTP env cfg w r) = w"
    and "dispatched (proxy_handleHTTP env cfg w r) = []"
    and "panicked (proxy_handleHTTP env cfg w r)"
  by (simp_all add: proxy_handleHTTP_def Let_def NewRequest_Some [OF assms])

lemma proxy_path_gateway:
  assumes "NewRequest_error env (Method r) (buildTargetURL r) = None"
    and "client_Do env (outbound r (fst (readLimitedBody (Body r) (MaxBodySize cfg))))
      = Inl err"
  shows "writer (proxy_handleHTTP env cfg w r)
      = http_Error w (''Failed to make request: '' @ Error_text err) StatusBadGateway"
    and "dispatched (proxy_handleHTTP env cfg w r)
      = [outbound r (fst (readLimitedBody (Body r) (MaxBodySize cfg)))]"
    and "\<not> panicked (proxy_handleHTTP env cfg w r)"
  using assms(2)
  by (simp_all add: proxy_handleHTTP_def Let_def NewRequest_None [OF assms(1)] outbound_def
      readLimitedBody_def)

lemma proxy_path_forward:
  assumes "NewRequest_error env (Method r) (buildTargetURL r) = None"
    and "client_Do env (outbound r (fst (readLimitedBody (Body r) (MaxBodySize cfg))))
      = Inr resp"
  shows "writer (proxy_handleHTTP env cfg w r)
      = forwardResponse w resp (fst (readLimitedBody (Response_Body resp) (MaxBodySize cfg)))"
    and "dispatched (proxy_handleHTTP env cfg w r)
      = [outbound r (fst (readLimitedBody (Body r) (MaxBodySize cfg)))]"
    and "\<not> panicked (proxy_handleHTTP env cfg w r)"
    and "records (proxy_handleHTTP env cfg w r) =
      [PrettyLogRequest (Method r) (URL_String (URL r)) (extractInterestingHeaders (Header r))
         (string_of (fst (readLimitedBody (Body r) (MaxBodySize cfg)))),
       PrettyLogResponse (StatusCode resp) (buildTargetURL r)
         (extractInterestingHeaders (Response_Header resp))
         (string_of (decompressIfNeeded (gzip_decode env)
            (fst (readLimitedBody (Response_Body resp) (MaxBodySize cfg)))
            (Response_Header resp)))]"
  using assms(2)
  by (simp_all add: proxy_handleHTTP_def Let_def NewRequest_None [OF assms(1)] outbound_def
      readLimitedBody_def forwardResponse_def)

lemma createForwardedRequest_Some:
  "NewRequest_error env (Method r) u = Some err \<Longrightarrow>
   createForwardedRequest env r u body = Inl err"
  by (simp add: createForwardedRequest_def NewRequest_Some)

lemma createForwardedRequest_None:
  "NewRequest_error env (Method r) (buildTargetURL r) = None \<Longrightarrow>
   createForwardedRequest env r (buildTargetURL r) body = Inr (outbound r body)"
  by (simp add: createForwardedRequest_def NewRequest_None outbound_def)

lemma main_path_too_large:
  assumes "readLimitedBody (Body r) (MaxBodySize cfg) = (body, Some err)"
  shows "writer (main_handleHTTP env cfg w r)
      = http_Error w ''Request body too large'' StatusRequestEntityTooLarge"
    and "dispatched (main_handleHTTP env cfg w r) = []"
    and "\<not> panicked (main_handleHTTP env cfg w r)"
  by (simp_all add: main_handleHTTP_def assms)

lemma main_path_not_created:
  assumes "readLimitedBody (Body r) (MaxBodySize cfg) = (body, None)"
    and "NewRequest_error env (Method r) (buildTargetURL r) = Some err"
  shows "writer (main_handleHTTP env cfg w r)
      = http_Error w ''Failed to create request'' StatusInternalServerError"
    and "dispatched (main_handleHTTP env cfg w r) = []"
    and "\<not> panicked (main_handleHTTP env cfg w r)"
  by (simp_all add: main_handleHTTP_def assms(1) main_buildTargetURL_def Let_def
      createForwardedRequest_Some [OF assms(2)])

lemma main_path_gateway:
  assumes "readLimitedBody (Body r) (MaxBodySize cfg) = (body, None)"
    and "NewRequest_error env (Method r) (buildTargetURL r) = None"
    and "client_Do env (outbound r body) = Inl err"
  shows "writer (main_handleHTTP env cfg w r)
      = http_Error w (''Failed to make request: '' @ Error_text err) StatusBadGateway"
    and "dispatched (main_handleHTTP env cfg w r) = [outbound r body]"
    and "\<not> panicked (main_handleHTTP env cfg w r)"
  by (simp_all add: main_handleHTTP_def assms(1,3) main_buildTargetURL_def Let_def
      createForwardedRequest_None [OF assms(2)])

lemma main_path_response_too_large:
  assumes "readLimitedBody (Body r) (MaxBodySize cfg) = (body, None)"
    and "NewRequest_error env (Method r) (buildTargetURL r) = None"
    and "client_Do env (outbound r body) = Inr resp"
    and "readLimitedBody (Response_Body resp) (MaxBodySize cfg) = (respBody, Some err)"
  shows "writer (main_handleHTTP env cfg w r)
      = http_Error w ''Response body too large'' StatusBadGateway"
    and "dispatched (main_handleHTTP env cfg w r) = [outbound r body]"
    and "\<not> panicked (main_handleHTTP env cfg w r)"
  by (simp_all add: main_handleHTTP_def assms(1,3,4) main_buildTargetURL_def Let_def
      createForwardedRequest_None [OF assms(2)])

lemma main_path_forward:
  assumes "readLimitedBody (Body r) (MaxBodySize cfg) = (body, None)"
    and "NewRequest_error env (Method r) (buildTargetURL r) = None"
    and "client_Do env (outbound r body) = Inr resp"
    and "readLimitedBody (Response_Body resp) (MaxBodySize cfg) = (respBody, None)"
  shows "writer (main_handleHTTP env cfg w r) = forwardResponse w resp respBody"
    and "dispatched (main_handleHTTP env cfg w r) = [outbound r body]"
    and "\<not> panicked (main_handleHTTP env cfg w r)"
    and "records (main_handleHTTP env cfg w r) =
      [logHTTPRequest env r body,
       logHTTPResponse env (buildTargetURL r) resp
         (decompressIfNeeded (gzip_decode env) respBody (Response_Header resp))]"
  by (simp_all add: main_handleHTTP_def assms(1,3,4) main_buildTargetURL_def Let_def
      createForwardedRequest_None [OF assms(2)])

text \<open>What each handler hands to the caller and to the origin, path by path.\<close>

lemma proxy_handleHTTP_writer:
  "writer (proxy_handleHTTP env cfg w r) =
     (case NewRequest_error env (Method r) (buildTargetURL r) of
        Some err \<Rightarrow> w
      | None \<Rightarrow>
          (case client_Do env (outbound r (fst (readLimitedBody (Body r) (MaxBodySize cfg)))) of
             Inl err \<Rightarrow>
               http_Error w (''Failed to make request: '' @ Error_text err) StatusBadGateway
           | Inr resp \<Rightarrow>
               forwardResponse w resp
                 (fst (readLimitedBody (Response_Body resp) (MaxBodySize cfg)))))"
  by (cases "NewRequest_error env (Method r) (buildTargetURL r)";
      cases "client_Do env (outbound r (fst (readLimitedBody (Body r) (MaxBodySize cfg))))")
    (simp_all add: proxy_path_panic proxy_path_gateway proxy_path_forward)

lemma proxy_handleHTTP_dispatched:
  "dispatched (proxy_handleHTTP env cfg w r) =
     (case NewRequest_error env (Method r) (buildTargetURL r) of
        Some err \<Rightarrow> []
      | None \<Rightarrow> [outbound r (fst (readLimitedBody (Body r) (MaxBodySize cfg)))])"
  by (cases "NewRequest_error env (Method r) (buildTargetURL r)";
      cases "client_Do env (outbound r (fst (readLimitedBody (Body r) (MaxBodySize cfg))))")
    (simp_all add: proxy_path_panic proxy_path_gateway proxy_path_forward)

lemma main_handleHTTP_cases [case_names too_large not_created gateway response_too_large forward]:
  obtains body err where "readLimitedBody (Body r) (MaxBodySize cfg) = (body, Some err)"
  | body err where "readLimitedBody (Body r) (MaxBodySize cfg) = (body, None)"
      and "NewRequest_error env (Method r) (buildTargetURL r) = Some err"
  | body err where "readLimitedBody (Body r) (MaxBodySize cfg) = (body, None)"
      and "NewRequest_error env (Method r) (buildTargetURL r) = None"
      and "client_Do env (outbound r body) = Inl err"
  | body resp respBody err where "readLimitedBody (Body r) (MaxBodySize cfg) = (body, None)"
      and "NewRequest_error env (Method r) (buildTargetURL r) = None"
      and "client_Do env (outbound r body) = Inr resp"
      and "readLimitedBody (Response_Body resp) (MaxBodySize cfg) = (respBody, Some err)"
  | body resp respBody where "readLimitedBody (Body r) (MaxBodySize cfg) = (body, None)"
      and "NewRequest_error env (Method r) (buildTargetURL r) = None"
      and "client_Do env (outbound r body) = Inr resp"
      and "readLimitedBody (Response_Body resp) (MaxBodySize cfg) = (respBody, None)"
proof (cases "readLimitedBody (Body r) (MaxBodySize cfg)")
  case (Pair body e)
  show ?thesis
  proof (cases e)
    case (Some err)
    with Pair that(1) show ?thesis by simp
  next
    case None
    note rd = Pair [unfolded None]
    show ?thesis
    proof (cases "NewRequest_error env (Method r) (buildTargetURL r)")
      case (Some err)
      with rd that(2) show ?thesis by simp
    next
      case nr: None
      show ?thesis
      proof (cases "client_Do env (outbound r body)")
        case (Inl err)
        with rd nr that(3) show ?thesis by simp
      next
        case (Inr resp)
        show ?thesis
        proof (cases "readLimitedBody (Response_Body resp) (MaxBodySize cfg)")
          case (Pair respBody e')
          with rd nr Inr that(4,5) show ?thesis by (cases e') simp_all
        qed
      qed
    qed
  qed
qed

lemmas main_paths = main_path_too_large main_path_not_created main_path_gateway
  main_path_response_too_large main_path_forward

lemma main_handleHTTP_writer:
  "writer (main_handleHTTP env cfg w r) =
     (case readLimitedBody (Body r) (MaxBodySize cfg) of
        (body, Some err) \<Rightarrow>
          http_Error w ''Request body too large'' StatusRequestEntityTooLarge
      | (body, None) \<Rightarrow>
          (case NewRequest_error env (Method r) (buildTargetURL r) of
             Some err \<Rightarrow> http_Error w ''Failed to create request'' StatusInternalServerError
           | None \<Rightarrow>
               (case client_Do env (outbound r body) of
                  Inl err \<Rightarrow>
                    http_Error w (''Failed to make request: '' @ Error_text err)
                      StatusBadGateway
                | Inr resp \<Rightarrow>
                    (case readLimitedBody (Response_Body resp) (MaxBodySize cfg) of
                       (respBody, Some err) \<Rightarrow>
                         http_Error w ''Response body too large'' StatusBadGateway
                     | (respBody, None) \<Rightarrow> forwardResponse w resp respBody))))"
  by (cases rule: main_handleHTTP_cases [where r = r and cfg = cfg and env = env])
    (simp_all add: main_paths)

lemma main_handleHTTP_dispatched:
  "dispatched (main_handleHTTP env cfg w r) =
     (case readLimitedBody (Body r) (MaxBodySize cfg) of
        (body, Some err) \<Rightarrow> []
      | (body, None) \<Rightarrow>
          (case NewRequest_error env (Method r) (buildTargetURL r) of
             Some err \<Rightarrow> []
           | None \<Rightarrow> [outbound r body]))"
  by (cases rule: main_handleHTTP_cases [where r = r and cfg = cfg and env = env])
    (simp_all add: main_paths)

lemma wBody_WriteHeader [simp]: "wBody (WriteHeader w code) = wBody w"
  by (simp add: WriteHeader_def split: option.splits)

lemma wBody_Write [simp]: "wBody (Write w bs) = wBody w @ bs"
  by (simp add: Write_def Let_def)

lemma wBody_forwardResponse [simp]: "wBody (forwardResponse w resp body) = wBody w @ body"
  by (simp add: forwardResponse_def Let_def)

subsection \<open>The sample cycle, evaluated\<close>

lemma sample_target: "buildTargetURL sample_request = ''http://example.com/a%20b?x=1''"
  by (simp add: sample_request_def sample_URL_def buildTargetURL_def IsAbs_def URL_String_def
      URL_authority_def EscapedPath_def shouldEscape_def upperhex_def Let_def)

lemma sample_headers:
  "copyForwardHeaders (Header sample_request) [] = [(''Accept'', [''a'', ''b''])]"
  by (simp add: sample_request_def isHopByHopHeader_def hopByHop_def foldedPair_def)

lemma sample_outbound:
  "outbound sample_request body =
     \<lparr>out_Method = ''POST'', out_URL = ''http://example.com/a%20b?x=1'',
      out_Header = [(''Accept'', [''a'', ''b''])], out_Body = body\<rparr>"
  by (simp add: outbound_def sample_target sample_headers) (simp add: sample_request_def)

lemma sample_read_default:
  "readLimitedBody (Body sample_request) (MaxBodySize default_config) = ([1, 2, 3], None)"
  "readLimitedBody (Response_Body sample_response) (MaxBodySize default_config)
     = ([31, 139, 8], None)"
  by (simp_all add: readLimitedBody_def io_ReadAll_def io_LimitReader_def sample_request_def
      sample_response_def default_config_def)

lemma sample_read_small:
  "readLimitedBody (Body sample_request) (MaxBodySize small_config) = ([1, 2], None)"
  "readLimitedBody (Body short_request) (MaxBodySize small_config) = ([7], None)"
  "readLimitedBody (Response_Body sample_response) (MaxBodySize small_config)
     = ([31, 139], None)"
  by (simp_all add: readLimitedBody_def io_ReadAll_def io_LimitReader_def sample_request_def
      short_request_def sample_response_def default_config_def small_config_def)

lemma sample_world_simps [simp]:
  "NewRequest_error sample_world m u = None"
  "client_Do sample_world req = Inr sample_response"
  "gzip_decode sample_world bs = ReadAllReturns [104, 105]"
  "net_DialTimeout sample_world h = None"
  by (simp_all add: sample_world_def)

lemma sample_forward:
  "forwardResponse fresh_writer sample_response body =
     \<lparr>wHeader = [(''Content-Encoding'', [''gzip'']), (''Content-Type'', [''text/plain''])],
      wStatus = Some 200, wBody = body, hijacker = NotHijacker\<rparr>"
  by (simp add: forwardResponse_def fresh_writer_def sample_response_def WriteHeader_def
      Write_def Let_def)

subsection \<open>Hop-by-hop filtering is case-insensitive membership\<close>

lemma toLower_nat:
  "(of_char (toLowerASCII c) :: nat) =
     (if 65 \<le> (of_char c :: nat) \<and> (of_char c :: nat) \<le> 90 then of_char c + 32
      else of_char c)"
  by (auto simp: toLowerASCII_def less_eq_char_def)

lemma foldedPair_iff:
  "(tr = sr \<or> foldedPair sr tr) \<longleftrightarrow> toLowerASCII sr = toLowerASCII tr"
proof -
  have "toLowerASCII sr = toLowerASCII tr
      \<longleftrightarrow> (of_char (toLowerASCII sr) :: nat) = of_char (toLowerASCII tr)"
    by simp
  also have "\<dots> \<longleftrightarrow> ((of_char tr :: nat) = of_char sr \<or> foldedPair sr tr)"
    unfolding toLower_nat foldedPair_def Let_def min_def max_def by auto
  also have "\<dots> \<longleftrightarrow> (tr = sr \<or> foldedPair sr tr)"
    by simp
  finally show ?thesis by simp
qed

lemma EqualFold_iff:
  "strings_EqualFold s t \<longleftrightarrow> map toLowerASCII s = map toLowerASCII t"
  by (induction s t rule: strings_EqualFold.induct) (simp_all add: foldedPair_iff)

lemma lowered_hop_lists:
  "map (map toLowerASCII) hopByHop = map (map toLowerASCII) hopByHopSet"
  by code_simp

lemma isHopByHopHeader_iff: "isHopByHopHeader name \<longleftrightarrow> inHopByHopSet name"
proof -
  have "isHopByHopHeader name
      \<longleftrightarrow> map toLowerASCII name \<in> set (map (map toLowerASCII) hopByHop)"
    by (auto simp: isHopByHopHeader_def list_ex_iff EqualFold_iff)
  then show ?thesis
    by (simp only: lowered_hop_lists inHopByHopSet_def)
qed

lemma map_of_copyForwardHeaders:
  "distinct (map fst h) \<Longrightarrow>
   map_of (copyForwardHeaders h out) name =
     (if name \<in> fst ` set h \<and> \<not> isHopByHopHeader name then map_of h name
      else map_of out name)"
proof (induction h arbitrary: out)
  case Nil
  then show ?case by simp
next
  case (Cons e h)
  obtain n vs where e: "e = (n, vs)" by (cases e)
  from Cons.prems have d: "distinct (map fst h)" and nin: "n \<notin> fst ` set h"
    by (simp_all add: e)
  show ?case
    using nin by (auto simp: e Cons.IH [OF d] update_conv' image_iff)
qed

lemma dispatched_is_outbound:
  assumes "req \<in> set (dispatched (proxy_handleHTTP env cfg w r))
      \<union> set (dispatched (main_handleHTTP env cfg w r))"
  shows "\<exists>body. req = outbound r body"
  using assms
  by (auto simp: proxy_handleHTTP_dispatched main_handleHTTP_dispatched
      split: option.splits prod.splits)

text \<open>
  C4. For every inbound header multimap (one entry per name, the names ASCII as
  \<open>net/http\<close> delivers them): whenever \<open>handleHTTP\<close> of \<open>internal/proxy\<close> builds
  its request, and whenever \<open>handleHTTP\<close> of \<open>package main\<close> reads the body and
  builds its request, exactly one outbound request is handed to the client, and in its
  header a name of the hop-by-hop set, in any letter case, has no entry, and any other
  name has exactly the inbound entry, all its values in their order. The same holds of
  every outbound request either pipeline hands to the client.
\<close>

theorem hop_by_hop_headers_stripped:
  assumes "distinct (map fst (Header r))"
    and "list_all isASCII (map fst (Header r))"
  shows "(NewRequest_error env (Method r) (buildTargetURL r) = None \<longrightarrow>
        map (\<lambda>req. map_of (out_Header req) name) (dispatched (proxy_handleHTTP env cfg w r))
          = [if inHopByHopSet name then None else map_of (Header r) name])
    \<and> (NewRequest_error env (Method r) (buildTargetURL r) = None
         \<and> snd (readLimitedBody (Body r) (MaxBodySize cfg)) = None \<longrightarrow>
        map (\<lambda>req. map_of (out_Header req) name) (dispatched (main_handleHTTP env cfg w r))
          = [if inHopByHopSet name then None else map_of (Header r) name])
    \<and> (req \<in> set (dispatched (proxy_handleHTTP env cfg w r))
           \<union> set (dispatched (main_handleHTTP env cfg w r)) \<longrightarrow>
        map_of (out_Header req) name =
          (if inHopByHopSet name then None else map_of (Header r) name))"
proof -
  have "name \<notin> fst ` set (Header r) \<Longrightarrow> map_of (Header r) name = None"
    by (simp add: map_of_eq_None_iff)
  with assms(1)
  have h: "map_of (out_Header (outbound r body)) name
      = (if inHopByHopSet name then None else map_of (Header r) name)" for body
    by (auto simp: outbound_def map_of_copyForwardHeaders isHopByHopHeader_iff)
  have p: "NewRequest_error env (Method r) (buildTargetURL r) = None \<longrightarrow>
        map (\<lambda>req. map_of (out_Header req) name) (dispatched (proxy_handleHTTP env cfg w r))
          = [if inHopByHopSet name then None else map_of (Header r) name]"
    by (simp add: proxy_handleHTTP_dispatched h)
  have m: "NewRequest_error env (Method r) (buildTargetURL r) = None
         \<and> snd (readLimitedBody (Body r) (MaxBodySize cfg)) = None \<longrightarrow>
        map (\<lambda>req. map_of (out_Header req) name) (dispatched (main_handleHTTP env cfg w r))
          = [if inHopByHopSet name then None else map_of (Header r) name]"
    by (cases "readLimitedBody (Body r) (MaxBodySize cfg)")
      (simp add: main_handleHTTP_dispatched h)
  have a: "req \<in> set (dispatched (proxy_handleHTTP env cfg w r))
           \<union> set (dispatched (main_handleHTTP env cfg w r)) \<longrightarrow>
        map_of (out_Header req) name =
          (if inHopByHopSet name then None else map_of (Header r) name)"
  proof
    assume "req \<in> set (dispatched (proxy_handleHTTP env cfg w r))
           \<union> set (dispatched (main_handleHTTP env cfg w r))"
    from dispatched_is_outbound [OF this] obtain body where "req = outbound r body" ..
    with h show "map_of (out_Header req) name =
          (if inHopByHopSet name then None else map_of (Header r) name)"
      by simp
  qed
  from p m a show ?thesis by simp
qed

theorem hop_by_hop_headers_stripped_witness:
  "distinct (map fst (Header sample_request))
   \<and> list_all isASCII (map fst (Header sample_request))
   \<and> NewRequest_error sample_world (Method sample_request) (buildTargetURL sample_request)
       = None
   \<and> snd (readLimitedBody (Body sample_request) (MaxBodySize default_config)) = None
   \<and> inHopByHopSet ''TE''
   \<and> map_of (Header sample_request) ''TE'' = Some [''trailers'']
   \<and> map (\<lambda>req. map_of (out_Header req) ''TE'')
        (dispatched (proxy_handleHTTP sample_world default_config fresh_writer sample_request))
       = [None]
   \<and> map (\<lambda>req. map_of (out_Header req) ''TE'')
        (dispatched (main_handleHTTP sample_world default_config fresh_writer sample_request))
       = [None]
   \<and> \<not> inHopByHopSet ''Accept''
   \<and> map (\<lambda>req. map_of (out_Header req) ''Accept'')
        (dispatched (proxy_handleHTTP sample_world default_config fresh_writer sample_request))
       = [Some [''a'', ''b'']]
   \<and> map (\<lambda>req. map_of (out_Header req) ''Accept'')
        (dispatched (main_handleHTTP sample_world default_config fresh_writer sample_request))
       = [Some [''a'', ''b'']]
   \<and> outbound sample_request [1, 2, 3]
       \<in> set (dispatched (proxy_handleHTTP sample_world default_config fresh_writer
             sample_request))
         \<union> set (dispatched (main_handleHTTP sample_world default_config fresh_writer
             sample_request))
   \<and> map_of (out_Header (outbound sample_request [1, 2, 3])) ''Connection'' = None"
proof -
  have d: "distinct (map fst (Header sample_request))"
    and a: "list_all isASCII (map fst (Header sample_request))"
    by (simp_all add: sample_request_def isASCII_def)
  have m: "outbound sample_request [1, 2, 3]
       \<in> set (dispatched (proxy_handleHTTP sample_world default_config fresh_writer
             sample_request))"
    "outbound sample_request [1, 2, 3]
       \<in> set (dispatched (main_handleHTTP sample_world default_config fresh_writer
             sample_request))"
    by (simp_all add: proxy_handleHTTP_dispatched main_handleHTTP_dispatched
        sample_read_default)
  have h: "inHopByHopSet ''TE''" "\<not> inHopByHopSet ''Accept''" "inHopByHopSet ''Connection''"
    by (simp_all add: inHopByHopSet_def hopByHopSet_def toLowerASCII_def)
  have v: "map_of (Header sample_request) ''TE'' = Some [''trailers'']"
    "map_of (Header sample_request) ''Accept'' = Some [''a'', ''b'']"
    by (simp_all add: sample_request_def)
  from hop_by_hop_headers_stripped [OF d a, where env = sample_world
      and cfg = default_config and name = "''TE''" and w = fresh_writer
      and req = "outbound sample_request [1, 2, 3]"]
    hop_by_hop_headers_stripped [OF d a, where env = sample_world
      and cfg = default_config and name = "''Accept''" and w = fresh_writer
      and req = "outbound sample_request [1, 2, 3]"]
    hop_by_hop_headers_stripped [OF d a, where env = sample_world
      and cfg = default_config and name = "''Connection''" and w = fresh_writer
      and req = "outbound sample_request [1, 2, 3]"]
  show ?thesis
    using d a m h v by (simp add: sample_read_default)
qed

subsection \<open>The forwarded body\<close>



subsection \<open>Bodies over the limit\<close>

text \<open>
  C2. The claim: an inbound body of \<open>MaxBodySize + 1\<close> bytes is rejected with status
  413 and nothing is dispatched. The code: with a limit of 2 and a body of 3 bytes that
  ends without a read error, both pipelines dispatch an outbound request carrying the
  first 2 bytes and answer with the origin's status 200. \<open>readLimitedBody\<close> reports no
  error when it stops at the limit, so the 413 branch of \<open>package main\<close> is taken only
  on a read error; \<open>internal/proxy\<close> drops the error altogether.
\<close>

theorem oversized_request_body_is_forwarded_truncated:
  "int (length (content (Body sample_request))) = MaxBodySize small_config + 1
   \<and> wStatus (writer (main_handleHTTP sample_world small_config fresh_writer sample_request))
       = Some 200
   \<and> map out_Body (dispatched
        (main_handleHTTP sample_world small_config fresh_writer sample_request)) = [[1, 2]]
   \<and> wStatus (writer (proxy_handleHTTP sample_world small_config fresh_writer sample_request))
       = Some 200
   \<and> map out_Body (dispatched
        (proxy_handleHTTP sample_world small_config fresh_writer sample_request)) = [[1, 2]]"
  by (simp add: main_handleHTTP_writer main_handleHTTP_dispatched proxy_handleHTTP_writer
      proxy_handleHTTP_dispatched sample_read_small sample_forward sample_outbound)
    (simp add: sample_request_def small_config_def)

text \<open>
  C3. The claim: an origin body over the limit is rejected with status 502. The code:
  with a limit of 2 and an origin body of 3 bytes, both pipelines write the origin's
  status 200 and the first 2 bytes to the caller. The cause is the one of C2.
\<close>

theorem oversized_response_body_is_forwarded_truncated:
  "int (length (content (Response_Body sample_response))) = MaxBodySize small_config + 1
   \<and> writer (main_handleHTTP sample_world small_config fresh_writer short_request)
       = forwardResponse fresh_writer sample_response [31, 139]
   \<and> wStatus (writer (main_handleHTTP sample_world small_config fresh_writer short_request))
       = Some 200
   \<and> wBody (writer (main_handleHTTP sample_world small_config fresh_writer short_request))
       = [31, 139]
   \<and> wStatus (writer (proxy_handleHTTP sample_world small_config fresh_writer short_request))
       = Some 200
   \<and> wBody (writer (proxy_handleHTTP sample_world small_config fresh_writer short_request))
       = [31, 139]"
  by (simp add: main_handleHTTP_writer proxy_handleHTTP_writer sample_read_small sample_forward)
    (simp add: sample_response_def small_config_def)

subsection \<open>Target resolution\<close>

lemma escape_unchanged: "needsNoEscape s mode \<Longrightarrow> escape s mode = s"
  by (induction s) (simp_all add: needsNoEscape_def)

lemma escape_path_first:
  "escape (c # s) encodePath \<noteq> []
   \<and> (hd (escape (c # s) encodePath) = CHR ''/'' \<longleftrightarrow> c = CHR ''/'')"
proof (cases "c = CHR ''/''")
  case True
  then show ?thesis by (simp add: shouldEscape_def)
next
  case False
  then show ?thesis by simp
qed

lemma EscapedPath_unset:
  "RawPath u = [] \<Longrightarrow>
   EscapedPath u = (if Path u = ''*'' then ''*'' else escape (Path u) encodePath)"
  by (simp add: EscapedPath_def)

lemma EscapedPath_first:
  assumes "RawPath u = []"
  shows "(EscapedPath u \<noteq> [] \<and> hd (EscapedPath u) \<noteq> CHR ''/'')
    \<longleftrightarrow> (Path u \<noteq> [] \<and> hd (Path u) \<noteq> CHR ''/'')"
proof (cases "Path u")
  case Nil
  then show ?thesis by (simp add: EscapedPath_unset [OF assms])
next
  case (Cons c s)
  show ?thesis
  proof (cases "Path u = ''*''")
    case True
    then show ?thesis by (simp add: EscapedPath_unset [OF assms])
  next
    case False
    with Cons escape_path_first [of c s] show ?thesis
      by (simp add: EscapedPath_unset [OF assms])
  qed
qed

lemma URL_String_synthesized:
  assumes "scheme \<noteq> []"
  shows "URL_String \<lparr>Scheme = scheme, Opaque = [], User = None, URL_Host = h, Path = p,
        RawPath = [], OmitHost = False, ForceQuery = False, RawQuery = q, Fragment = [],
        RawFragment = []\<rparr>
    = scheme @ '':'' @ (if h \<noteq> [] \<or> p \<noteq> [] then ''//'' else []) @ escape h encodeHost
      @ (if p \<noteq> [] \<and> hd p \<noteq> CHR ''/'' \<and> h \<noteq> [] then ''/'' else [])
      @ (if p = ''*'' then ''*'' else escape p encodePath)
      @ (if q \<noteq> [] then ''?'' @ q else [])"
proof -
  define u where "u = \<lparr>Scheme = scheme, Opaque = [], User = None, URL_Host = h, Path = p,
        RawPath = [], OmitHost = False, ForceQuery = False, RawQuery = q, Fragment = [],
        RawFragment = []\<rparr>"
  have f: "Scheme u = scheme" "Opaque u = []" "User u = None" "URL_Host u = h" "Path u = p"
    "RawPath u = []" "\<not> OmitHost u" "\<not> ForceQuery u" "RawQuery u = q" "Fragment u = []"
    by (simp_all add: u_def)
  have a: "URL_authority u
      = (if h \<noteq> [] \<or> p \<noteq> [] then ''//'' else []) @ escape h encodeHost"
    using assms by (cases h) (simp_all add: URL_authority_def f)
  have e: "EscapedPath u = (if p = ''*'' then ''*'' else escape p encodePath)"
    by (simp add: EscapedPath_unset f)
  have s: "(EscapedPath u \<noteq> [] \<and> hd (EscapedPath u) \<noteq> CHR ''/'')
      \<longleftrightarrow> (p \<noteq> [] \<and> hd p \<noteq> CHR ''/'')"
    using EscapedPath_first [of u] by (simp add: f)
  have "URL_String u
      = scheme @ '':'' @ URL_authority u
        @ (if EscapedPath u \<noteq> [] \<and> hd (EscapedPath u) \<noteq> CHR ''/'' \<and> h \<noteq> [] then ''/''
           else [])
        @ EscapedPath u @ (if q \<noteq> [] then ''?'' @ q else [])"
    using assms by (simp add: URL_String_def f Let_def)
  also have "\<dots> = scheme @ '':'' @ ((if h \<noteq> [] \<or> p \<noteq> [] then ''//'' else [])
        @ escape h encodeHost)
      @ (if p \<noteq> [] \<and> hd p \<noteq> CHR ''/'' \<and> h \<noteq> [] then ''/'' else [])
      @ (if p = ''*'' then ''*'' else escape p encodePath)
      @ (if q \<noteq> [] then ''?'' @ q else [])"
    using s by (simp only: a e) auto
  finally show ?thesis by (simp add: u_def)
qed

text \<open>
  C5, as stated, fails: for the relative target \<open>/a%20b?x=1\<close> (path \<open>/a b\<close>) with Host
  \<open>example.com\<close> over a non-TLS listener the result is not
  \<open>http://\<close> + h + p + \<open>?\<close> + q, because \<open>URL.String\<close> percent-escapes the path.
\<close>

theorem buildTargetURL_escapes_path:
  "\<not> IsAbs (URL sample_request) \<and> \<not> TLS sample_request
   \<and> RawQuery (URL sample_request) \<noteq> []
   \<and> buildTargetURL sample_request = ''http://example.com/a%20b?x=1''
   \<and> buildTargetURL sample_request
       \<noteq> ''http://'' @ Host sample_request @ Path (URL sample_request)
           @ ''?'' @ RawQuery (URL sample_request)"
  by (simp add: sample_target) (simp add: sample_request_def sample_URL_def IsAbs_def)

text \<open>
  C5, amended. Target resolution returns the serialised inbound URL when it is absolute.
  Otherwise the result is the scheme (\<open>https\<close> exactly when the request arrived over
  TLS, else \<open>http\<close>), a colon, two slashes unless Host and path are both empty, the Host
  escaped as a host, a slash when a non-empty path that does not begin with one follows
  a Host, the path percent-escaped as a path (\<open>*\<close> kept), and \<open>?\<close> and the raw query
  exactly when the raw query is non-empty. When Host and path hold no byte that is
  escaped, the path is empty or begins with a slash, and they are not both empty, that
  is scheme + \<open>://\<close> + h + p (+ \<open>?\<close> + q).
\<close>

theorem buildTargetURL_resolved:
  "(IsAbs (URL r) \<longrightarrow> buildTargetURL r = URL_String (URL r))
   \<and> (\<not> IsAbs (URL r) \<longrightarrow>
        buildTargetURL r =
          (if TLS r then ''https'' else ''http'') @ '':''
          @ (if Host r \<noteq> [] \<or> Path (URL r) \<noteq> [] then ''//'' else [])
          @ escape (Host r) encodeHost
          @ (if Path (URL r) \<noteq> [] \<and> hd (Path (URL r)) \<noteq> CHR ''/'' \<and> Host r \<noteq> []
             then ''/'' else [])
          @ (if Path (URL r) = ''*'' then ''*'' else escape (Path (URL r)) encodePath)
          @ (if RawQuery (URL r) \<noteq> [] then ''?'' @ RawQuery (URL r) else []))
   \<and> (\<not> IsAbs (URL r) \<and> needsNoEscape (Host r) encodeHost
        \<and> needsNoEscape (Path (URL r)) encodePath
        \<and> (Path (URL r) = [] \<or> hd (Path (URL r)) = CHR ''/'')
        \<and> (Host r \<noteq> [] \<or> Path (URL r) \<noteq> []) \<longrightarrow>
        buildTargetURL r =
          (if TLS r then ''https'' else ''http'') @ ''://'' @ Host r @ Path (URL r)
          @ (if RawQuery (URL r) \<noteq> [] then ''?'' @ RawQuery (URL r) else []))"
proof (intro conjI impI)
  assume "IsAbs (URL r)"
  then show "buildTargetURL r = URL_String (URL r)" by (simp add: buildTargetURL_def)
next
  assume "\<not> IsAbs (URL r)"
  then show "buildTargetURL r =
          (if TLS r then ''https'' else ''http'') @ '':''
          @ (if Host r \<noteq> [] \<or> Path (URL r) \<noteq> [] then ''//'' else [])
          @ escape (Host r) encodeHost
          @ (if Path (URL r) \<noteq> [] \<and> hd (Path (URL r)) \<noteq> CHR ''/'' \<and> Host r \<noteq> []
             then ''/'' else [])
          @ (if Path (URL r) = ''*'' then ''*'' else escape (Path (URL r)) encodePath)
          @ (if RawQuery (URL r) \<noteq> [] then ''?'' @ RawQuery (URL r) else [])"
    by (simp add: buildTargetURL_def Let_def URL_String_synthesized)
next
  assume a: "\<not> IsAbs (URL r) \<and> needsNoEscape (Host r) encodeHost
        \<and> needsNoEscape (Path (URL r)) encodePath
        \<and> (Path (URL r) = [] \<or> hd (Path (URL r)) = CHR ''/'')
        \<and> (Host r \<noteq> [] \<or> Path (URL r) \<noteq> [])"
  then have "Path (URL r) \<noteq> ''*''" by auto
  with a show "buildTargetURL r =
          (if TLS r then ''https'' else ''http'') @ ''://'' @ Host r @ Path (URL r)
          @ (if RawQuery (URL r) \<noteq> [] then ''?'' @ RawQuery (URL r) else [])"
    by (auto simp: buildTargetURL_def Let_def URL_String_synthesized escape_unchanged)
qed

theorem buildTargetURL_resolved_witness:
  "IsAbs (URL absolute_request)
   \<and> buildTargetURL absolute_request = ''http://api.github.com/zen''
   \<and> \<not> IsAbs (URL sample_request)
   \<and> buildTargetURL sample_request = ''http://example.com/a%20b?x=1''
   \<and> \<not> IsAbs (URL plain_request)
   \<and> needsNoEscape (Host plain_request) encodeHost
   \<and> needsNoEscape (Path (URL plain_request)) encodePath
   \<and> hd (Path (URL plain_request)) = CHR ''/''
   \<and> Host plain_request \<noteq> []
   \<and> TLS plain_request
   \<and> buildTargetURL plain_request = ''https://example.com/zen''"
proof -
  have a: "IsAbs (URL absolute_request)"
    "URL_String (URL absolute_request) = ''http://api.github.com/zen''"
    by (simp_all add: absolute_request_def sample_URL_def IsAbs_def URL_String_def
        URL_authority_def EscapedPath_def shouldEscape_def Let_def)
  have p: "\<not> IsAbs (URL plain_request)" "needsNoEscape (Host plain_request) encodeHost"
    "needsNoEscape (Path (URL plain_request)) encodePath"
    "hd (Path (URL plain_request)) = CHR ''/''" "Host plain_request \<noteq> []"
    "TLS plain_request" "Path (URL plain_request) = ''/zen''"
    "Host plain_request = ''example.com''" "RawQuery (URL plain_request) = []"
    by (simp_all add: plain_request_def sample_request_def sample_URL_def IsAbs_def
        needsNoEscape_def shouldEscape_def)
  have s: "\<not> IsAbs (URL sample_request)"
    by (simp add: sample_request_def sample_URL_def IsAbs_def)
  from buildTargetURL_resolved [of absolute_request] buildTargetURL_resolved [of plain_request]
    buildTargetURL_resolved [of sample_request]
  show ?thesis
    using a p s by (simp add: sample_target shouldEscape_def)
qed

subsection \<open>Display-only decompression\<close>





text \<open>
  C10. Decompression is attempted only when \<open>Header.Get("Content-Encoding")\<close> is the
  string \<open>gzip\<close>, compared byte for byte: for any other value the body is returned as
  it is, whatever the gzip library would do with it; for that value the result is what
  the library decodes, or the body when it fails.
\<close>

theorem decompression_only_for_exact_gzip:
  "(Header_Get headers ''Content-Encoding'' \<noteq> ''gzip''
      \<longrightarrow> decompressIfNeeded gzip body headers = body)
   \<and> (Header_Get headers ''Content-Encoding'' = ''gzip''
      \<longrightarrow> decompressIfNeeded gzip body headers =
          (case gzip body of ReadAllReturns dat \<Rightarrow> dat | _ \<Rightarrow> body))"
  by (simp add: decompressIfNeeded_def split: gzip_outcome.splits)

theorem decompression_only_for_exact_gzip_witness:
  "Header_Get [(''Content-Encoding'', [''GZIP''])] ''Content-Encoding'' \<noteq> ''gzip''
   \<and> decompressIfNeeded (gzip_decode sample_world) [31, 139, 8]
        [(''Content-Encoding'', [''GZIP''])] = [31, 139, 8]
   \<and> Header_Get [(''Content-Encoding'', [''Gzip''])] ''Content-Encoding'' \<noteq> ''gzip''
   \<and> decompressIfNeeded (gzip_decode sample_world) [31, 139, 8]
        [(''Content-Encoding'', [''Gzip''])] = [31, 139, 8]
   \<and> Header_Get [(''Content-Encoding'', [''gzip, br''])] ''Content-Encoding'' \<noteq> ''gzip''
   \<and> decompressIfNeeded (gzip_decode sample_world) [31, 139, 8]
        [(''Content-Encoding'', [''gzip, br''])] = [31, 139, 8]
   \<and> Header_Get [(''Content-Encoding'', [''gzip''])] ''Content-Encoding'' = ''gzip''
   \<and> decompressIfNeeded (gzip_decode sample_world) [31, 139, 8]
        [(''Content-Encoding'', [''gzip''])] = [104, 105]"
  using decompression_only_for_exact_gzip [of "[(''Content-Encoding'', [''GZIP''])]"
      "gzip_decode sample_world" "[31, 139, 8]"]
    decompression_only_for_exact_gzip [of "[(''Content-Encoding'', [''Gzip''])]"
      "gzip_decode sample_world" "[31, 139, 8]"]
    decompression_only_for_exact_gzip [of "[(''Content-Encoding'', [''gzip, br''])]"
      "gzip_decode sample_world" "[31, 139, 8]"]
    decompression_only_for_exact_gzip [of "[(''Content-Encoding'', [''gzip''])]"
      "gzip_decode sample_world" "[31, 139, 8]"]
  by (simp add: Header_Get_def)

subsection \<open>CONNECT without connection takeover\<close>

lemma hijacker_WriteHeader [simp]: "hijacker (WriteHeader w code) = hijacker w"
  by (simp add: WriteHeader_def split: option.splits)

lemma wBody_http_Error [simp]:
  "wBody (http_Error w msg code) = wBody w @ bytes_of (msg @ [CHR 0x0A])"
  by (simp add: http_Error_def Let_def)

lemma wStatus_http_Error:
  "wStatus w = None \<Longrightarrow> wStatus (http_Error w msg code) = Some code"
  by (simp add: http_Error_def WriteHeader_def Write_def Let_def)

text \<open>
  C7, as stated, fails: with a writer that is no \<open>http.Hijacker\<close> and a reachable
  target, the handler of either package has dialled the target before it looks at the
  writer; the status on the wire is then the 200 written before the check.
\<close>

theorem connect_dials_before_hijack_check:
  "hijacker fresh_writer = NotHijacker
   \<and> events (proxy_handleHTTPS sample_world fresh_writer connect_request)
       = [DialTimeout ''example.com:443'', TargetConnClose]
   \<and> DialTimeout ''example.com:443''
       \<in> set (events (proxy_handleHTTPS sample_world fresh_writer connect_request))
   \<and> wStatus (session_writer (proxy_handleHTTPS sample_world fresh_writer connect_request))
       = Some 200
   \<and> events (main_handleHTTPS sample_world fresh_writer connect_request)
       = [DialTimeout ''example.com:443'', TargetConnClose]
   \<and> DialTimeout ''example.com:443''
       \<in> set (events (main_handleHTTPS sample_world fresh_writer connect_request))
   \<and> wStatus (session_writer (main_handleHTTPS sample_world fresh_writer connect_request))
       = Some 200"
  by (simp add: proxy_handleHTTPS_def main_handleHTTPS_def Let_def)
    (simp add: fresh_writer_def connect_request_def http_Error_def WriteHeader_def Write_def
      StatusOK_def Let_def)

text \<open>
  C7, amended. When the caller's transport does not support connection takeover, the
  outbound dial to the target is still attempted first, in either package. If the dial
  fails the session ends there and a fresh writer gets the bad-gateway status; if it
  succeeds, nothing is hijacked or relayed, the rejection text
  \<open>Hijacking not supported\<close> is written to the caller and the target connection is
  closed.
\<close>

theorem connect_without_hijacker:
  assumes "hijacker w = NotHijacker"
  shows "events (proxy_handleHTTPS env w r) =
      (case net_DialTimeout env (Host r) of
         Some err \<Rightarrow> [DialTimeout (Host r)]
       | None \<Rightarrow> [DialTimeout (Host r), TargetConnClose])
    \<and> events (main_handleHTTPS env w r) =
      (case net_DialTimeout env (Host r) of
         Some err \<Rightarrow> [DialTimeout (Host r)]
       | None \<Rightarrow> [DialTimeout (Host r), TargetConnClose])
    \<and> (net_DialTimeout env (Host r) = None \<longrightarrow>
         wBody (session_writer (proxy_handleHTTPS env w r))
           = wBody w @ bytes_of (''Hijacking not supported'' @ [CHR 0x0A])
         \<and> wBody (session_writer (main_handleHTTPS env w r))
           = wBody w @ bytes_of (''Hijacking not supported'' @ [CHR 0x0A]))
    \<and> (net_DialTimeout env (Host r) = Some err \<and> wStatus w = None \<longrightarrow>
         wStatus (session_writer (proxy_handleHTTPS env w r)) = Some StatusBadGateway
         \<and> wStatus (session_writer (main_handleHTTPS env w r)) = Some StatusBadGateway)"
  using assms
  by (cases "net_DialTimeout env (Host r)")
    (simp_all add: proxy_handleHTTPS_def main_handleHTTPS_def Let_def wStatus_http_Error)

theorem connect_without_hijacker_witness:
  "hijacker fresh_writer = NotHijacker
   \<and> net_DialTimeout sample_world (Host connect_request) = None
   \<and> events (proxy_handleHTTPS sample_world fresh_writer connect_request)
       = [DialTimeout ''example.com:443'', TargetConnClose]
   \<and> events (main_handleHTTPS sample_world fresh_writer connect_request)
       = [DialTimeout ''example.com:443'', TargetConnClose]
   \<and> wBody (session_writer (proxy_handleHTTPS sample_world fresh_writer connect_request))
       = bytes_of (''Hijacking not supported'' @ [CHR 0x0A])
   \<and> wBody (session_writer (main_handleHTTPS sample_world fresh_writer connect_request))
       = bytes_of (''Hijacking not supported'' @ [CHR 0x0A])
   \<and> net_DialTimeout unreachable_world (Host connect_request) = Some (Error ''i/o timeout'')
   \<and> wStatus fresh_writer = None
   \<and> events (proxy_handleHTTPS unreachable_world fresh_writer connect_request)
       = [DialTimeout ''example.com:443'']
   \<and> events (main_handleHTTPS unreachable_world fresh_writer connect_request)
       = [DialTimeout ''example.com:443'']
   \<and> wStatus (session_writer
        (proxy_handleHTTPS unreachable_world fresh_writer connect_request)) = Some 502
   \<and> wStatus (session_writer
        (main_handleHTTPS unreachable_world fresh_writer connect_request)) = Some 502"
proof -
  have h: "hijacker fresh_writer = NotHijacker" "wStatus fresh_writer = None"
    "wBody fresh_writer = []" "Host connect_request = ''example.com:443''"
    "net_DialTimeout unreachable_world (Host connect_request) = Some (Error ''i/o timeout'')"
    by (simp_all add: fresh_writer_def connect_request_def unreachable_world_def)
  from connect_without_hijacker [OF h(1), of sample_world connect_request "Error []"]
    connect_without_hijacker [OF h(1), of unreachable_world connect_request
      "Error ''i/o timeout''"]
  show ?thesis
    using h by (simp add: StatusBadGateway_def)
qed

subsection \<open>The binary classifier\<close>

lemma normalise_shift_spec:
  "0 < n \<Longrightarrow> k \<le> normalise_shift n d k
     \<and> 2 ^ 52 * d \<le> n * 2 ^ normalise_shift n d k
     \<and> (normalise_shift n d k = k \<or> n * 2 ^ (normalise_shift n d k - 1) < 2 ^ 52 * d)"
proof (induction n d k rule: normalise_shift.induct)
  case (1 n d k)
  show ?case
  proof (cases "2 ^ 52 * d \<le> n * 2 ^ k")
    case True
    then have "normalise_shift n d k = k"
      by (subst normalise_shift.simps) simp
    with True show ?thesis by simp
  next
    case False
    with "1.prems" have eq: "normalise_shift n d k = normalise_shift n d (Suc k)"
      by (subst normalise_shift.simps) simp
    from False "1.prems" have "\<not> (n = 0 \<or> 2 ^ 52 * d \<le> n * 2 ^ k)" by simp
    from "1.IH" [OF this "1.prems"]
    have ih: "Suc k \<le> normalise_shift n d (Suc k)"
      "2 ^ 52 * d \<le> n * 2 ^ normalise_shift n d (Suc k)"
      "normalise_shift n d (Suc k) = Suc k
         \<or> n * 2 ^ (normalise_shift n d (Suc k) - 1) < 2 ^ 52 * d"
      by simp_all
    from ih(3) False have "n * 2 ^ (normalise_shift n d (Suc k) - 1) < 2 ^ 52 * d"
      by auto
    with ih(1,2) show ?thesis unfolding eq by simp
  qed
qed

lemma float64_0_2_value: "float64_0_2 = (7205759403792794, 55)"
  by (simp add: float64_0_2_def float64_quotient_def normalise_shift.simps)

text \<open>
  The ratio test in exact arithmetic: for a count \<open>n\<close> out of \<open>d \<le> 2 ^ 52\<close> bytes the
  rounded quotient exceeds the rounded \<open>0.2\<close> exactly when \<open>n / d > 1/5\<close>.
\<close>

lemma ratio_test_exact:
  assumes n0: "0 < n" and nd: "n \<le> d" and dmax: "d \<le> 2 ^ 52"
  shows "float64_greater (float64_quotient n d) float64_0_2 \<longleftrightarrow> d < 5 * n"
proof -
  define k where "k = normalise_shift n d 0"
  define X where "X = n * 2 ^ k"
  define q where "q = X div d"
  define r where "r = X mod d"
  define m where "m = (if d < 2 * r \<or> (2 * r = d \<and> odd q) then q + 1 else q)"
  have d0: "0 < d" using n0 nd by simp
  have dmax': "d \<le> 4503599627370496" using dmax by simp
  have quot: "float64_quotient n d = (m, k)"
    using n0 by (simp add: float64_quotient_def Let_def k_def X_def q_def r_def m_def)
  have gt: "float64_greater (m, k) float64_0_2
      \<longleftrightarrow> 7205759403792794 * 2 ^ k < m * 2 ^ 55"
    by (simp add: float64_greater_def float64_0_2_value)
  from normalise_shift_spec [OF n0, of 0 d]
  have lo: "4503599627370496 * d \<le> X"
    and hi': "k = 0 \<or> n * 2 ^ (k - 1) < 4503599627370496 * d"
    by (simp_all add: k_def X_def)
  have kpos: "0 < k"
  proof (rule ccontr)
    assume "\<not> 0 < k"
    then have "X = n" by (simp add: X_def)
    with lo nd d0 show False by simp
  qed
  then have Xhalf: "X = 2 * (n * 2 ^ (k - 1))"
    by (cases k) (simp_all add: X_def)
  with hi' kpos have hi: "X < 9007199254740992 * d" by simp
  have Xeq: "X = q * d + r" by (simp add: q_def r_def)
  have rd: "r < d" using d0 by (simp add: r_def)
  have qlo: "4503599627370496 \<le> q"
  proof -
    have "(q + 1) * d = q * d + d" by simp
    with lo Xeq rd have "4503599627370496 * d < (q + 1) * d" by linarith
    then have "4503599627370496 < q + 1" by (simp only: mult_less_cancel2)
    then show ?thesis by simp
  qed
  have qhi: "q < 9007199254740992"
  proof -
    have "q * d < 9007199254740992 * d" using hi Xeq by linarith
    then show ?thesis by (simp only: mult_less_cancel2)
  qed
  have mq: "q \<le> m" "m \<le> q + 1" by (simp_all add: m_def)
  show ?thesis
  proof (cases "d < 5 * n")
    case True
    consider "k \<le> 54" | "k = 55" | "56 \<le> k" by linarith
    then have "7205759403792794 * 2 ^ k < m * 2 ^ 55"
    proof cases
      case 1
      then have "(2::nat) ^ k \<le> 2 ^ 54" by (intro power_increasing) simp_all
      then have "7205759403792794 * (2::nat) ^ k \<le> 7205759403792794 * 2 ^ 54" by simp
      moreover have "4503599627370496 * (2::nat) ^ 55 \<le> m * 2 ^ 55" using qlo mq(1) by simp
      ultimately show ?thesis by simp
    next
      case 2
      have X55: "X = n * 36028797018963968" by (simp add: X_def 2)
      have "7205759403792795 \<le> m"
      proof (rule ccontr)
        assume "\<not> 7205759403792795 \<le> m"
        then have mle: "m \<le> 7205759403792794" by simp
        then have qle: "q \<le> 7205759403792794" using mq(1) by simp
        show False
        proof (cases "q = 7205759403792794")
          case True
          with mle have "\<not> d < 2 * r" by (auto simp: m_def split: if_splits)
          moreover from Xeq True have "X = 7205759403792794 * d + r" by simp
          ultimately show False using X55 \<open>d < 5 * n\<close> dmax' by linarith
        next
          case False
          with qle have "q + 1 \<le> 7205759403792794" by simp
          then have "(q + 1) * d \<le> 7205759403792794 * d" by (rule mult_le_mono1)
          moreover have "(q + 1) * d = q * d + d" by simp
          ultimately have "X < 7205759403792794 * d" using Xeq rd by linarith
          with X55 \<open>d < 5 * n\<close> dmax' show False by linarith
        qed
      qed
      then show ?thesis by (simp add: 2)
    next
      case 3
      then have "(2::nat) ^ 55 \<le> 2 ^ (k - 1)" by (intro power_increasing) simp_all
      then have "n * (2::nat) ^ 55 \<le> n * 2 ^ (k - 1)" by (rule mult_le_mono2)
      moreover have "n * 2 ^ (k - 1) < 4503599627370496 * d" using hi' kpos by simp
      ultimately have "n * (2::nat) ^ 55 < 4503599627370496 * d"
        by (rule order_le_less_trans)
      then have "n * 36028797018963968 < 4503599627370496 * d" by simp
      with True have False by linarith
      then show ?thesis ..
    qed
    with quot gt True show ?thesis by simp
  next
    case False
    consider "k \<le> 54" | "k = 55" | "56 \<le> k" by linarith
    then have "\<not> 7205759403792794 * 2 ^ k < m * 2 ^ 55"
    proof cases
      case 1
      then have "(2::nat) ^ k \<le> 2 ^ 54" by (intro power_increasing) simp_all
      then have "n * (2::nat) ^ k \<le> n * 2 ^ 54" by (rule mult_le_mono2)
      with lo have "4503599627370496 * d \<le> n * 2 ^ 54" unfolding X_def by (rule order_trans)
      then have "4503599627370496 * d \<le> n * 18014398509481984" by simp
      with False n0 have False by linarith
      then show ?thesis ..
    next
      case 2
      have X55: "X = n * 36028797018963968" by (simp add: X_def 2)
      have "(5 * q) * d = 5 * (q * d)" by simp
      with Xeq X55 False have "(5 * q) * d \<le> 36028797018963968 * d" by linarith
      then have "5 * q \<le> 36028797018963968" using d0 by (simp only: mult_le_cancel2)
      then have "m \<le> 7205759403792794" using mq(2) by simp
      then show ?thesis by (simp add: 2)
    next
      case 3
      then have "(2::nat) ^ 56 \<le> 2 ^ k" by (intro power_increasing) simp_all
      then have "7205759403792794 * (2::nat) ^ 56 \<le> 7205759403792794 * 2 ^ k" by simp
      moreover have "m * (2::nat) ^ 55 \<le> 9007199254740992 * 2 ^ 55" using qhi mq(2) by simp
      ultimately show ?thesis by simp
    qed
    with quot gt False show ?thesis by simp
  qed
qed

lemma countNonPrintable_filter:
  "countNonPrintable dat n = n + length (filter nonPrintableByte dat)"
  by (induction dat arbitrary: n) simp_all

lemma nonPrintableByte_iff: "nonPrintableByte b \<longleftrightarrow> countedAsBinary b"
  by (simp add: nonPrintableByte_def countedAsBinary_def word_less_nat_alt word_unat_eq_iff)

lemma isBinaryContent_exact:
  assumes "length dat \<le> 2 ^ 52"
  shows "isBinaryContent dat \<longleftrightarrow> length dat < 5 * length (filter nonPrintableByte dat)"
proof (cases "length (filter nonPrintableByte dat) = 0")
  case True
  then show ?thesis
    by (simp add: isBinaryContent_def countNonPrintable_filter float64_quotient_def
        float64_greater_def float64_0_2_value)
next
  case False
  then have n0: "0 < length (filter nonPrintableByte dat)" by simp
  then have "dat \<noteq> []" by auto
  with ratio_test_exact [OF n0 length_filter_le assms] show ?thesis
    by (simp add: isBinaryContent_def countNonPrintable_filter)
qed

text \<open>
  C8. For every byte sequence (of at most \<open>2 ^ 52\<close> bytes, where the \<open>float64\<close> ratio
  decides as the exact ratio does), the classifier returns true exactly when strictly
  more than 20% of the bytes are NUL, control characters other than tab, newline and
  carriage return, or above 126; a body so classified is shown in the response record
  of \<open>package main\<close> as a byte-count placeholder instead of text.
\<close>

theorem isBinaryContent_threshold:
  assumes "length dat \<le> 2 ^ 52"
  shows "(isBinaryContent dat
      \<longleftrightarrow> 20 * length dat < 100 * length (filter countedAsBinary dat))
    \<and> (isBinaryContent dat \<longrightarrow>
         logHTTPResponse env url resp dat =
           ShownResponse (Status resp) url (extractInterestingHeaders (Response_Header resp))
             (BinaryPlaceholder (length dat)))"
proof -
  have "filter nonPrintableByte dat = filter countedAsBinary dat"
    by (simp add: nonPrintableByte_iff cong: filter_cong)
  with isBinaryContent_exact [OF assms]
  have a: "isBinaryContent dat
      \<longleftrightarrow> 20 * length dat < 100 * length (filter countedAsBinary dat)"
    by simp
  have "isBinaryContent dat \<Longrightarrow> 0 < length dat"
    by (auto simp: isBinaryContent_def)
  then have b: "isBinaryContent dat \<longrightarrow>
         logHTTPResponse env url resp dat =
           ShownResponse (Status resp) url (extractInterestingHeaders (Response_Header resp))
             (BinaryPlaceholder (length dat))"
    by (simp add: logHTTPResponse_def)
  from a b show ?thesis by simp
qed

theorem isBinaryContent_threshold_witness:
  "length [0, 65, 65, 65 :: byte] \<le> 2 ^ 52
   \<and> isBinaryContent [0, 65, 65, 65]
   \<and> length (filter countedAsBinary [0, 65, 65, 65]) = 1
   \<and> logHTTPResponse sample_world ''http://example.com/'' sample_response [0, 65, 65, 65]
       = ShownResponse ''200 OK'' ''http://example.com/'' [(''Content-Type'', ''text/plain'')]
           (BinaryPlaceholder 4)
   \<and> length [0, 65, 65, 65, 65 :: byte] \<le> 2 ^ 52
   \<and> length (filter countedAsBinary [0, 65, 65, 65, 65]) = 1
   \<and> \<not> isBinaryContent [0, 65, 65, 65, 65]"
proof -
  have l: "length [0, 65, 65, 65 :: byte] \<le> 2 ^ 52" "length [0, 65, 65, 65, 65 :: byte] \<le> 2 ^ 52"
    by simp_all
  have h: "extractInterestingHeaders (Response_Header sample_response)
       = [(''Content-Type'', ''text/plain'')]" "Status sample_response = ''200 OK''"
    by (simp_all add: sample_response_def extractInterestingHeaders_def
        interestingNames_def Header_Values_def)
  from isBinaryContent_threshold [OF l(1), of sample_world "''http://example.com/''"
      sample_response]
    isBinaryContent_threshold [OF l(2), of sample_world "''http://example.com/''"
      sample_response]
  show ?thesis
    using h by (simp add: countedAsBinary_def)
qed

subsection \<open>The bounded body reader\<close>

text \<open>
  C9. For every byte source and maximum size \<open>N\<close> (a size, so \<open>0 \<le> N\<close>), the bounded
  body reader returns the first \<open>N\<close> bytes of the source, or all of them when there are
  fewer: a prefix of the source that is at most \<open>N\<close> bytes long. A source longer than
  the limit is cut at exactly \<open>N\<close> bytes with no error reported, and an error that is
  reported is never one of the limit: it is the error the source itself ends with, when
  the source has no more than \<open>N\<close> bytes. The bytes read so far are returned in every
  case.
\<close>

theorem readLimitedBody_bounded_prefix:
  assumes "0 \<le> N"
  shows "fst (readLimitedBody src N) = take (nat N) (content src)
    \<and> prefix (fst (readLimitedBody src N)) (content src)
    \<and> int (length (fst (readLimitedBody src N))) \<le> N
    \<and> (N < int (length (content src)) \<longrightarrow>
         readLimitedBody src N = (take (nat N) (content src), None))
    \<and> (N \<le> int (length (content src)) \<and> (failure src = None \<or> eager src = False) \<longrightarrow>
         readLimitedBody src N = (take (nat N) (content src), None))
    \<and> (snd (readLimitedBody src N) = Some err \<longrightarrow>
         failure src = Some err \<and> int (length (content src)) \<le> N)"
  using assms
  by (auto simp: readLimitedBody_def io_ReadAll_def io_LimitReader_def take_is_prefix
      split: if_splits)

theorem readLimitedBody_bounded_prefix_witness:
  "(0::int) \<le> 2
   \<and> (2::int) < int (length (content broken_reader))
   \<and> fst (readLimitedBody broken_reader 2) = [1, 2]
   \<and> prefix (fst (readLimitedBody broken_reader 2)) (content broken_reader)
   \<and> length (fst (readLimitedBody broken_reader 2)) = 2
   \<and> readLimitedBody broken_reader 2 = ([1, 2], None)
   \<and> (3::int) \<le> int (length (content broken_reader))
   \<and> eager (broken_reader\<lparr>eager := False\<rparr>) = False
   \<and> readLimitedBody (broken_reader\<lparr>eager := False\<rparr>) 3 = ([1, 2, 3], None)
   \<and> snd (readLimitedBody broken_reader 3) = Some (Error ''connection reset'')
   \<and> failure broken_reader = Some (Error ''connection reset'')
   \<and> fst (readLimitedBody broken_reader 3) = [1, 2, 3]
   \<and> readLimitedBody broken_reader 4 = ([1, 2, 3], Some (Error ''connection reset''))"
  using readLimitedBody_bounded_prefix [of 2 broken_reader "Error ''connection reset''"]
    readLimitedBody_bounded_prefix [of 3 "broken_reader\<lparr>eager := False\<rparr>"
      "Error ''connection reset''"]
    readLimitedBody_bounded_prefix [of 3 broken_reader "Error ''connection reset''"]
  by (simp add: readLimitedBody_def io_ReadAll_def io_LimitReader_def broken_reader_def)

end
